theory Spec2Isabelle
  imports Main "HOL-Library.AList"
begin

section \<open>The settings store of pyrpl/memory.py\<close>

text \<open>
  A shallow embedding of \<^verbatim>\<open>MemoryBranch\<close> and \<^verbatim>\<open>MemoryTree\<close>. Python objects are
  mutable and shared by reference, and two of the properties studied below are about such
  sharing, so dictionaries live in an explicit heap and every operation passes the whole
  world (heap, tree objects, file system, clock) along and returns it, together with
  either the raised exception or the returned value.
\<close>

subsection \<open>Values, dictionaries and the heap\<close>

datatype scalar = SInt int | SStr string | SBool bool | SNone

text \<open>A Python value is a scalar or a reference to a dictionary object in the heap;
  \<^verbatim>\<open>isbranch(obj)\<close> is \<^verbatim>\<open>isinstance(obj, dict)\<close>.\<close>

datatype val = Leaf scalar | Ref nat

fun isbranch :: "val \<Rightarrow> bool" where
  "isbranch (Ref a) = True"
| "isbranch (Leaf s) = False"

text \<open>A dictionary keeps its keys in insertion order: assigning to an existing key keeps
  the key's place, assigning to a new key appends it (\<open>AList.update\<close> does exactly that).\<close>

type_synonym pydict = "(string \<times> val) list"

text \<open>The heap is the list of all dictionary objects ever created; an object's address is
  its index, so a new object always gets an address no live reference holds.\<close>

type_synonym pyheap = "pydict list"

datatype fs_step =
  Stat | ReadFile | Backup | OpenBuffer | WriteBuffer | SyncBuffer | Unlink | Rename | Restore

text \<open>\<open>InvalidRef\<close> stands for a reference to an object that does not exist. Python cannot
  produce one; the constructor only makes the model total.\<close>

datatype error =
  KeyError | TypeError | AttributeError | OSError fs_step | YAMLError | InvalidRef

subsection \<open>The serialization backend\<close>

text \<open>
  \<^verbatim>\<open>load\<close> and \<^verbatim>\<open>save\<close> wrap ruamel.yaml or PyYAML, which are not part of the repository;
  they are parameters of the model. \<open>yaml_load\<close> raises on a malformed document (\<open>Inl\<close>),
  returns \<^verbatim>\<open>None\<close> for an empty one, and otherwise returns a fresh object graph whose top
  level is a mapping: the root dictionary and the other dictionaries of the document,
  where \<open>Ref i\<close> inside them means the \<open>i\<close>-th object of the list \<open>root # others\<close>.
  \<open>yaml_save\<close> renders the object graph reachable from a value.
\<close>

record backend =
  yaml_load :: "string \<Rightarrow> error + (pydict \<times> pydict list) option"
  yaml_save :: "pyheap \<Rightarrow> val \<Rightarrow> string"

subsection \<open>Files, the timer, tree objects and the world\<close>

record fsfile =
  bytes :: string
  modified :: int

text \<open>A \<^verbatim>\<open>QTimer\<close>: \<^verbatim>\<open>start()\<close> arms it to fire \<open>interval\<close> milliseconds later.\<close>

record qtimer =
  interval :: int
  single_shot :: bool
  active :: bool
  deadline :: int

text \<open>The attributes of a \<^verbatim>\<open>MemoryTree\<close> object. \<open>None\<close> means that the instance has no
  such attribute: reading it raises \<^verbatim>\<open>AttributeError\<close>, except for \<^verbatim>\<open>_data\<close>, where the
  lookup falls through to the class attribute \<^verbatim>\<open>MemoryTree._data\<close>.\<close>

record tree =
  filename :: "string option option"
  data :: "val option"
  mtime :: "int option"
  lastreload :: "int option"
  lastsave :: "int option"
  buffer_filename :: "string option"
  savetimer :: "qtimer option"
  save_counter :: "nat option"

text \<open>
  The world. Times are integer milliseconds; \<^verbatim>\<open>time()\<close> counts seconds in the
  source, so a deadtime of \<open>d\<close> seconds is \<open>d * 1000\<close> here, and the clock does not move
  while one operation runs. \<open>faulty\<close> is the set of file-system steps that the environment
  makes fail, \<open>partial\<close> the number of bytes that reach the buffer file when writing it
  fails. \<open>logged\<close> collects warnings and errors sent to the logger. \<open>disk_writes\<close> is an
  observer that no operation reads: the path and bytes of every completed replacement of
  a backing file.
\<close>

record world =
  heap :: pyheap
  class_data :: nat
  trees :: "tree list"
  fs :: "string \<Rightarrow> fsfile option"
  now :: int
  faulty :: "fs_step set"
  partial :: nat
  logged :: "string list"
  disk_writes :: "(string \<times> string) list"

type_synonym 'a action = "world \<Rightarrow> (error + 'a) \<times> world"

definition thenE :: "'a action \<Rightarrow> ('a \<Rightarrow> 'b action) \<Rightarrow> 'b action" where
  "thenE m f w = (case m w of (Inl e, w') \<Rightarrow> (Inl e, w') | (Inr x, w') \<Rightarrow> f x w')"

definition return :: "'a \<Rightarrow> 'a action" where
  "return x w = (Inr x, w)"

definition raise :: "error \<Rightarrow> 'a action" where
  "raise e w = (Inl e, w)"

text \<open>\<^verbatim>\<open>try: m  except: h; raise\<close> with a bare \<^verbatim>\<open>except\<close>: the handler runs on any
  exception; when the handler itself raises, that exception replaces the first one.\<close>

definition try_except_reraise :: "'a action \<Rightarrow> unit action \<Rightarrow> 'a action" where
  "try_except_reraise m h w =
     (case m w of
        (Inr x, w') \<Rightarrow> (Inr x, w')
      | (Inl e, w') \<Rightarrow> (case h w' of (Inl e', w'') \<Rightarrow> (Inl e', w'') | (Inr u, w'') \<Rightarrow> (Inl e, w'')))"

definition attr :: "'a option \<Rightarrow> 'a action" where
  "attr x = (case x of None \<Rightarrow> raise AttributeError | Some v \<Rightarrow> return v)"

definition get_tree :: "nat \<Rightarrow> tree action" where
  "get_tree tid w = (if tid < length (trees w) then (Inr (trees w ! tid), w) else (Inl InvalidRef, w))"

definition upd_tree :: "nat \<Rightarrow> (tree \<Rightarrow> tree) \<Rightarrow> unit action" where
  "upd_tree tid f w = (Inr (), w\<lparr>trees := (trees w)[tid := f (trees w ! tid)]\<rparr>)"

definition log :: "string \<Rightarrow> unit action" where
  "log msg w = (Inr (), w\<lparr>logged := logged w @ [msg]\<rparr>)"

subsection \<open>File-system primitives\<close>

definition os_path_getmtime :: "string \<Rightarrow> int action" where
  "os_path_getmtime p w =
     (if Stat \<in> faulty w then (Inl (OSError Stat), w)
      else case fs w p of None \<Rightarrow> (Inl (OSError Stat), w) | Some f \<Rightarrow> (Inr (modified f), w))"

definition read_file :: "string \<Rightarrow> string action" where
  "read_file p w =
     (if ReadFile \<in> faulty w then (Inl (OSError ReadFile), w)
      else case fs w p of None \<Rightarrow> (Inl (OSError ReadFile), w) | Some f \<Rightarrow> (Inr (bytes f), w))"

text \<open>\<^verbatim>\<open>shutil.copyfile(src, dst)\<close>; \<open>step\<close> names the call for fault injection.\<close>

definition copyfile :: "fs_step \<Rightarrow> string \<Rightarrow> string \<Rightarrow> unit action" where
  "copyfile step src dst w =
     (if step \<in> faulty w then (Inl (OSError step), w)
      else case fs w src of
        None \<Rightarrow> (Inl (OSError step), w)
      | Some f \<Rightarrow> (Inr (), w\<lparr>fs := (fs w)(dst \<mapsto> \<lparr>bytes = bytes f, modified = now w\<rparr>)\<rparr>))"

text \<open>\<^verbatim>\<open>open(p, mode='w')\<close> creates or truncates the file.\<close>

definition open_w :: "string \<Rightarrow> unit action" where
  "open_w p w =
     (if OpenBuffer \<in> faulty w then (Inl (OSError OpenBuffer), w)
      else (Inr (), w\<lparr>fs := (fs w)(p \<mapsto> \<lparr>bytes = [], modified = now w\<rparr>)\<rparr>))"

definition write_stream :: "string \<Rightarrow> string \<Rightarrow> unit action" where
  "write_stream p s w =
     (if WriteBuffer \<in> faulty w
      then (Inl (OSError WriteBuffer),
            w\<lparr>fs := (fs w)(p \<mapsto> \<lparr>bytes = take (partial w) s, modified = now w\<rparr>)\<rparr>)
      else (Inr (), w\<lparr>fs := (fs w)(p \<mapsto> \<lparr>bytes = s, modified = now w\<rparr>)\<rparr>))"

text \<open>\<^verbatim>\<open>f.flush(); os.fsync(f.fileno()); f.close()\<close>\<close>

definition flush_fsync_close :: "unit action" where
  "flush_fsync_close w =
     (if SyncBuffer \<in> faulty w then (Inl (OSError SyncBuffer), w) else (Inr (), w))"

definition os_unlink :: "string \<Rightarrow> unit action" where
  "os_unlink p w =
     (if Unlink \<in> faulty w then (Inl (OSError Unlink), w)
      else case fs w p of
        None \<Rightarrow> (Inl (OSError Unlink), w)
      | Some f \<Rightarrow> (Inr (), w\<lparr>fs := (fs w)(p := None)\<rparr>))"

definition os_rename :: "string \<Rightarrow> string \<Rightarrow> unit action" where
  "os_rename src dst w =
     (if Rename \<in> faulty w then (Inl (OSError Rename), w)
      else case fs w src of
        None \<Rightarrow> (Inl (OSError Rename), w)
      | Some f \<Rightarrow> (Inr (), w\<lparr>fs := (fs w)(dst \<mapsto> f, src := None),
                             disk_writes := disk_writes w @ [(dst, bytes f)]\<rparr>))"

subsection \<open>MemoryTree\<close>

text \<open>\<^verbatim>\<open>_loadsavedeadtime = 3\<close> (seconds)\<close>

definition loadsavedeadtime :: int where
  "loadsavedeadtime = 3"

text \<open>The value of \<^verbatim>\<open>tree._data\<close>: the instance attribute when there is one, else the
  class attribute \<^verbatim>\<open>_data = OrderedDict()\<close>, one object made when the class is defined.\<close>

definition tree_data :: "nat \<Rightarrow> val action" where
  "tree_data tid =
     thenE (get_tree tid) (\<lambda>t w.
       (case data t of Some v \<Rightarrow> (Inr v, w) | None \<Rightarrow> (Inr (Ref (class_data w)), w)))"

definition relocate :: "nat \<Rightarrow> pydict \<Rightarrow> pydict" where
  "relocate base d = map (\<lambda>(k, v). (k, case v of Leaf s \<Rightarrow> Leaf s | Ref i \<Rightarrow> Ref (base + i))) d"

text \<open>The object that \<^verbatim>\<open>load(f)\<close> returns: \<^verbatim>\<open>None\<close>, or the root of a graph of new objects.\<close>

definition materialize :: "(pydict \<times> pydict list) option \<Rightarrow> val action" where
  "materialize r w =
     (case r of
        None \<Rightarrow> (Inr (Leaf SNone), w)
      | Some (root, others) \<Rightarrow>
          (Inr (Ref (length (heap w))),
           w\<lparr>heap := heap w @ map (relocate (length (heap w))) (root # others)\<rparr>))"

text \<open>\<^verbatim>\<open>OrderedDict()\<close>\<close>

definition new_dict :: "pydict \<Rightarrow> val action" where
  "new_dict d w = (Inr (Ref (length (heap w))), w\<lparr>heap := heap w @ [d]\<rparr>)"

text \<open>
  \<^verbatim>\<open>MemoryTree._load\<close>. The two loops over \<^verbatim>\<open>self.__dict__\<close> at its end only maintain the
  placeholders used for tab completion; they are not modelled, here and in the other
  methods.
\<close>

definition MemoryTree_load :: "backend \<Rightarrow> nat \<Rightarrow> unit action" where
  "MemoryTree_load bk tid =
     thenE (get_tree tid) (\<lambda>t.
     thenE (attr (filename t)) (\<lambda>fname.
       case fname of
         None \<Rightarrow> return ()
       | Some p \<Rightarrow>
           thenE (read_file p) (\<lambda>s.
           thenE (\<lambda>w. (yaml_load bk s, w)) (\<lambda>r.
           thenE (materialize r) (\<lambda>v.
           thenE (upd_tree tid (\<lambda>t. t\<lparr>data := Some v\<rparr>)) (\<lambda>_.
           thenE (os_path_getmtime p) (\<lambda>m.
           thenE (upd_tree tid (\<lambda>t. t\<lparr>mtime := Some m\<rparr>)) (\<lambda>_.
           thenE (\<lambda>w. upd_tree tid (\<lambda>t. t\<lparr>lastreload := Some (now w)\<rparr>) w) (\<lambda>_.
             if v = Leaf SNone
             then thenE (new_dict []) (\<lambda>v'. upd_tree tid (\<lambda>t. t\<lparr>data := Some v'\<rparr>))
             else return ())))))))))"

text \<open>\<^verbatim>\<open>MemoryTree._reload\<close>\<close>

definition MemoryTree_reload :: "backend \<Rightarrow> nat \<Rightarrow> unit action" where
  "MemoryTree_reload bk tid =
     thenE (get_tree tid) (\<lambda>t.
     thenE (attr (filename t)) (\<lambda>fname.
       case fname of
         None \<Rightarrow> return ()
       | Some p \<Rightarrow>
           thenE (attr (lastreload t)) (\<lambda>lr w.
             if now w > lr + loadsavedeadtime * 1000
             then
               (thenE (upd_tree tid (\<lambda>t. t\<lparr>lastreload := Some (now w)\<rparr>)) (\<lambda>_.
                thenE (attr (mtime t)) (\<lambda>m.
                thenE (os_path_getmtime p) (\<lambda>fm.
                  if m \<noteq> fm then MemoryTree_load bk tid else return ())))) w
             else (Inr (), w))))"

text \<open>The body of the \<^verbatim>\<open>try\<close> block of \<^verbatim>\<open>_save\<close>: write the buffer file, then replace the
  backing file by it.\<close>

definition write_and_replace :: "backend \<Rightarrow> nat \<Rightarrow> string \<Rightarrow> unit action" where
  "write_and_replace bk tid p =
     thenE (get_tree tid) (\<lambda>t.
     thenE (attr (buffer_filename t)) (\<lambda>buf.
     thenE (open_w buf) (\<lambda>_.
     thenE (tree_data tid) (\<lambda>root.
     thenE (\<lambda>w. write_stream buf (yaml_save bk (heap w) root) w) (\<lambda>_.
     thenE flush_fsync_close (\<lambda>_.
     thenE (os_unlink p) (\<lambda>_.
     os_rename buf p)))))))"

text \<open>The branch of \<^verbatim>\<open>_save\<close> taken when the deadtime has passed: note the time, warn
  about a foreign change of the file, back the file up, write and replace it (restoring
  the backup when that fails), and record the new modification time.\<close>

definition write_file :: "backend \<Rightarrow> nat \<Rightarrow> string \<Rightarrow> unit action" where
  "write_file bk tid p =
     thenE (\<lambda>w. upd_tree tid (\<lambda>t. t\<lparr>lastsave := Some (now w)\<rparr>) w) (\<lambda>_.
     thenE (get_tree tid) (\<lambda>t.
     thenE (attr (mtime t)) (\<lambda>m.
     thenE (os_path_getmtime p) (\<lambda>fm.
     thenE (if m \<noteq> fm
            then log ''Config file has recently been changed on your harddisk. These changes might have been overwritten now.''
            else return ()) (\<lambda>_.
     thenE (copyfile Backup p (p @ ''.bak'')) (\<lambda>_.
     thenE (try_except_reraise (write_and_replace bk tid p)
              (thenE (copyfile Restore (p @ ''.bak'') p) (\<lambda>_.
               log ''Error writing to file. Backup version was restored.''))) (\<lambda>_.
     thenE (os_path_getmtime p) (\<lambda>m'.
     upd_tree tid (\<lambda>t. t\<lparr>mtime := Some m'\<rparr>)))))))))"

text \<open>The other branch: \<^verbatim>\<open>if not self._savetimer.isActive(): self._savetimer.start()\<close>\<close>

definition start_savetimer :: "nat \<Rightarrow> unit action" where
  "start_savetimer tid =
     thenE (get_tree tid) (\<lambda>t.
     thenE (attr (savetimer t)) (\<lambda>tm w.
       if \<not> active tm
       then upd_tree tid (\<lambda>t. t\<lparr>savetimer := Some (tm\<lparr>active := True, deadline := now w + interval tm\<rparr>)\<rparr>) w
       else (Inr (), w)))"

text \<open>
  \<^verbatim>\<open>MemoryTree._save\<close>, the second definition in the class body (it replaces the first,
  a stub that only logs). \<open>deadtime\<close> is in seconds, \<open>None\<close> for the default.
\<close>

definition MemoryTree_save :: "backend \<Rightarrow> nat \<Rightarrow> int option \<Rightarrow> unit action" where
  "MemoryTree_save bk tid deadtime =
     thenE (get_tree tid) (\<lambda>t.
     thenE (attr (save_counter t)) (\<lambda>c.
     thenE (upd_tree tid (\<lambda>t. t\<lparr>save_counter := Some (c + 1)\<rparr>)) (\<lambda>_.
     let d = (case deadtime of None \<Rightarrow> loadsavedeadtime | Some d \<Rightarrow> d) in
     thenE (attr (filename t)) (\<lambda>fname.
       case fname of
         None \<Rightarrow> return ()
       | Some p \<Rightarrow>
           thenE (attr (lastsave t)) (\<lambda>ls w.
             if ls + d * 1000 < now w then write_file bk tid p w else start_savetimer tid w)))))"

text \<open>\<^verbatim>\<open>QTimer.stop()\<close> on \<^verbatim>\<open>self._savetimer\<close>, guarded by \<^verbatim>\<open>isActive()\<close>.\<close>

definition stop_savetimer :: "nat \<Rightarrow> unit action" where
  "stop_savetimer tid =
     thenE (get_tree tid) (\<lambda>t.
     thenE (attr (savetimer t)) (\<lambda>tm.
       if active tm
       then upd_tree tid (\<lambda>t. t\<lparr>savetimer := Some (tm\<lparr>active := False\<rparr>)\<rparr>)
       else return ()))"

text \<open>\<^verbatim>\<open>MemoryTree._save_now\<close>\<close>

definition MemoryTree_save_now :: "backend \<Rightarrow> nat \<Rightarrow> unit action" where
  "MemoryTree_save_now bk tid =
     thenE (stop_savetimer tid) (\<lambda>_.
     thenE (MemoryTree_save bk tid (Some (- 1))) (\<lambda>_.
     stop_savetimer tid))"

text \<open>
  \<^verbatim>\<open>MemoryTree.__init__\<close>. \<open>fname\<close> is what \<^verbatim>\<open>get_config_file(filename, source)\<close> returned:
  \<^verbatim>\<open>None\<close> when no name was given, else the path of an existing file. The new object is
  returned by its index in \<open>trees\<close>.
\<close>

definition empty_tree :: tree where
  "empty_tree = \<lparr>filename = None, data = None, mtime = None, lastreload = None, lastsave = None,
                 buffer_filename = None, savetimer = None, save_counter = None\<rparr>"

definition MemoryTree_init :: "backend \<Rightarrow> string option \<Rightarrow> nat action" where
  "MemoryTree_init bk fname w =
     (let tid = length (trees w) in
      (thenE (\<lambda>w. (Inr (), w\<lparr>trees := trees w @ [empty_tree\<lparr>filename := Some fname\<rparr>]\<rparr>)) (\<lambda>_.
       thenE (case fname of
                None \<Rightarrow> return ()
              | Some p \<Rightarrow>
                  (\<lambda>w. upd_tree tid (\<lambda>t. t\<lparr>lastsave := Some (now w),
                                             buffer_filename := Some (p @ ''.tmp''),
                                             savetimer := Some \<lparr>interval = loadsavedeadtime * 1000,
                                                                single_shot = True, active = False,
                                                                deadline = 0\<rparr>\<rparr>) w)) (\<lambda>_.
       thenE (MemoryTree_load bk tid) (\<lambda>_.
       thenE (upd_tree tid (\<lambda>t. t\<lparr>save_counter := Some 0\<rparr>)) (\<lambda>_.
       return tid))))) w)"

text \<open>The event loop delivers the timer's \<^verbatim>\<open>timeout\<close> signal, connected to \<^verbatim>\<open>self._save\<close>:
  a single-shot timer that is due stops, then the slot runs with no argument.\<close>

definition timer_fires :: "backend \<Rightarrow> nat \<Rightarrow> unit action" where
  "timer_fires bk tid =
     thenE (get_tree tid) (\<lambda>t.
     thenE (attr (savetimer t)) (\<lambda>tm w.
       if active tm \<and> deadline tm \<le> now w
       then (thenE (upd_tree tid (\<lambda>t. t\<lparr>savetimer :=
                      Some (if single_shot tm then tm\<lparr>active := False\<rparr>
                            else tm\<lparr>deadline := deadline tm + interval tm\<rparr>)\<rparr>)) (\<lambda>_.
             MemoryTree_save bk tid None)) w
       else (Inr (), w)))"

subsection \<open>MemoryBranch\<close>

text \<open>
  A branch object holds its parent, its name and its list of default branches. A
  \<^verbatim>\<open>MemoryTree\<close> is the branch that is its own parent, with the name \<^verbatim>\<open>""\<close>.
\<close>

datatype branch = Tree nat "branch list" | Sub branch string "branch list"

fun parent :: "branch \<Rightarrow> branch" where
  "parent (Tree tid ds) = Tree tid ds"
| "parent (Sub p n ds) = p"

fun branch_name :: "branch \<Rightarrow> string" where
  "branch_name (Tree tid ds) = []"
| "branch_name (Sub p n ds) = n"

fun defaults :: "branch \<Rightarrow> branch list" where
  "defaults (Tree tid ds) = ds"
| "defaults (Sub p n ds) = ds"

fun root :: "branch \<Rightarrow> nat" where
  "root (Tree tid ds) = tid"
| "root (Sub p n ds) = root p"

text \<open>The dictionary behind a value that is subscripted or assigned into. A scalar
  supports neither (\<^verbatim>\<open>TypeError\<close>).\<close>

definition deref :: "val \<Rightarrow> pydict action" where
  "deref v w =
     (case v of
        Leaf s \<Rightarrow> (Inl TypeError, w)
      | Ref a \<Rightarrow> if a < length (heap w) then (Inr (heap w ! a), w) else (Inl InvalidRef, w))"

text \<open>\<^verbatim>\<open>obj[key]\<close>\<close>

definition subscript :: "val \<Rightarrow> string \<Rightarrow> val action" where
  "subscript v k =
     thenE (deref v) (\<lambda>d. case map_of d k of None \<Rightarrow> raise KeyError | Some x \<Rightarrow> return x)"

text \<open>\<^verbatim>\<open>obj[key] = x\<close>\<close>

definition store_item :: "val \<Rightarrow> string \<Rightarrow> val \<Rightarrow> unit action" where
  "store_item v k x w =
     (case v of
        Leaf s \<Rightarrow> (Inl TypeError, w)
      | Ref a \<Rightarrow>
          if a < length (heap w)
          then (Inr (), w\<lparr>heap := (heap w)[a := AList.update k x (heap w ! a)]\<rparr>)
          else (Inl InvalidRef, w))"

text \<open>\<^verbatim>\<open>key in obj\<close>. On a string leaf Python answers with a substring test and the
  assignment that follows raises \<^verbatim>\<open>TypeError\<close>; on the other scalars the test itself
  raises it. The model raises it here in both cases.\<close>

definition contains :: "val \<Rightarrow> string \<Rightarrow> bool action" where
  "contains v k = thenE (deref v) (\<lambda>d. return (k \<in> fst ` set d))"

text \<open>\<^verbatim>\<open>obj.pop(key)\<close>; a scalar has no such method.\<close>

definition pop_item :: "val \<Rightarrow> string \<Rightarrow> val action" where
  "pop_item v k w =
     (case v of
        Leaf s \<Rightarrow> (Inl AttributeError, w)
      | Ref a \<Rightarrow>
          if a < length (heap w)
          then (case map_of (heap w ! a) k of
                  None \<Rightarrow> (Inl KeyError, w)
                | Some x \<Rightarrow> (Inr x, w\<lparr>heap := (heap w)[a := AList.delete k (heap w ! a)]\<rparr>))
          else (Inl InvalidRef, w))"

text \<open>\<^verbatim>\<open>obj.update(new_dict)\<close>, \<open>new\<close> being the items of \<^verbatim>\<open>new_dict\<close> in order.\<close>

definition update_items :: "val \<Rightarrow> pydict \<Rightarrow> unit action" where
  "update_items v new w =
     (case v of
        Leaf s \<Rightarrow> (Inl AttributeError, w)
      | Ref a \<Rightarrow>
          if a < length (heap w)
          then (Inr (), w\<lparr>heap := (heap w)[a := fold (\<lambda>(k, x). AList.update k x) new (heap w ! a)]\<rparr>)
          else (Inl InvalidRef, w))"

text \<open>\<^verbatim>\<open>dict(value)\<close>: a new dictionary with the same items.\<close>

definition copy_dict :: "val \<Rightarrow> val action" where
  "copy_dict v = thenE (deref v) new_dict"

text \<open>The property \<^verbatim>\<open>_data\<close>: \<^verbatim>\<open>self._parent._data[self._branch]\<close>, and for the tree the
  attribute.\<close>

fun MemoryBranch_data :: "branch \<Rightarrow> val action" where
  "MemoryBranch_data (Tree tid ds) = tree_data tid"
| "MemoryBranch_data (Sub p n ds) = thenE (MemoryBranch_data p) (\<lambda>d. subscript d n)"

text \<open>\<^verbatim>\<open>_reload\<close> and \<^verbatim>\<open>_save\<close> of a branch call the parent's, up to the tree.\<close>

fun MemoryBranch_reload :: "backend \<Rightarrow> branch \<Rightarrow> unit action" where
  "MemoryBranch_reload bk (Tree tid ds) = MemoryTree_reload bk tid"
| "MemoryBranch_reload bk (Sub p n ds) = MemoryBranch_reload bk p"

fun MemoryBranch_save :: "backend \<Rightarrow> branch \<Rightarrow> unit action" where
  "MemoryBranch_save bk (Tree tid ds) = MemoryTree_save bk tid None"
| "MemoryBranch_save bk (Sub p n ds) = MemoryBranch_save bk p"

text \<open>\<^verbatim>\<open>self._data[item]\<close> of a branch\<close>

definition own_item :: "branch \<Rightarrow> string \<Rightarrow> val action" where
  "own_item b item = thenE (MemoryBranch_data b) (\<lambda>d. subscript d item)"

text \<open>The loop over \<^verbatim>\<open>self._defaults\<close> in \<^verbatim>\<open>__getitem__\<close>, ending in the bare \<^verbatim>\<open>raise\<close>.\<close>

fun search_defaults :: "branch list \<Rightarrow> string \<Rightarrow> val action" where
  "search_defaults [] item w = (Inl KeyError, w)"
| "search_defaults (d # ds) item w =
     (case own_item d item w of
        (Inl KeyError, w') \<Rightarrow> search_defaults ds item w'
      | (r, w') \<Rightarrow> (r, w'))"

text \<open>\<^verbatim>\<open>MemoryBranch.__getitem__\<close>\<close>

definition MemoryBranch_getitem :: "backend \<Rightarrow> branch \<Rightarrow> string \<Rightarrow> val action" where
  "MemoryBranch_getitem bk b item =
     thenE (MemoryBranch_reload bk b) (\<lambda>_ w.
       case own_item b item w of
         (Inl KeyError, w') \<Rightarrow> search_defaults (defaults b) item w'
       | (r, w') \<Rightarrow> (r, w'))"

text \<open>\<^verbatim>\<open>name.startswith('_')\<close>\<close>

definition private_name :: "string \<Rightarrow> bool" where
  "private_name name = (case name of [] \<Rightarrow> False | c # cs \<Rightarrow> c = CHR ''_'')"

text \<open>
  \<^verbatim>\<open>MemoryBranch.__setattr__\<close>. A name with a leading underscore is set as an ordinary
  attribute of the branch object: the data is not touched and nothing is saved. The
  model does not keep the attributes of branch objects, so this case is only right for
  names that no method reads (not for \<^verbatim>\<open>_branch\<close>, \<^verbatim>\<open>_parent\<close>, \<^verbatim>\<open>_defaults\<close> or
  \<^verbatim>\<open>_data\<close>); every property below that goes through \<^verbatim>\<open>__setattr__\<close> is about names
  without the underscore.
\<close>

definition MemoryBranch_setattr :: "backend \<Rightarrow> branch \<Rightarrow> string \<Rightarrow> val \<Rightarrow> unit action" where
  "MemoryBranch_setattr bk b name value =
     (if private_name name then return ()
      else
        thenE (MemoryBranch_data b) (\<lambda>d.
        thenE (store_item d name value) (\<lambda>_.
        MemoryBranch_save bk b)))"

text \<open>\<^verbatim>\<open>MemoryBranch.__setitem__\<close>\<close>

definition MemoryBranch_setitem :: "backend \<Rightarrow> branch \<Rightarrow> string \<Rightarrow> val \<Rightarrow> unit action" where
  "MemoryBranch_setitem bk b item value =
     thenE (MemoryBranch_data b) (\<lambda>d.
     thenE (contains d item) (\<lambda>present.
       if present then MemoryBranch_setattr bk b item value
       else
         thenE (if isbranch value then copy_dict value else return value) (\<lambda>x.
         thenE (MemoryBranch_data b) (\<lambda>d'.
         thenE (store_item d' item x) (\<lambda>_.
         MemoryBranch_save bk b)))))"

text \<open>\<^verbatim>\<open>MemoryBranch._pop\<close>\<close>

definition MemoryBranch_pop :: "backend \<Rightarrow> branch \<Rightarrow> string \<Rightarrow> val action" where
  "MemoryBranch_pop bk b name =
     thenE (MemoryBranch_data b) (\<lambda>d.
     thenE (pop_item d name) (\<lambda>value.
     thenE (MemoryBranch_save bk b) (\<lambda>_.
     return value)))"

text \<open>\<^verbatim>\<open>MemoryBranch._rename\<close>\<close>

definition MemoryBranch_rename :: "backend \<Rightarrow> branch \<Rightarrow> string \<Rightarrow> unit action" where
  "MemoryBranch_rename bk b name =
     thenE (MemoryBranch_pop bk (parent b) (branch_name b)) (\<lambda>value.
     thenE (MemoryBranch_setitem bk (parent b) name value) (\<lambda>_.
     MemoryBranch_save bk b))"

text \<open>\<^verbatim>\<open>MemoryBranch._erase\<close>\<close>

definition MemoryBranch_erase :: "backend \<Rightarrow> branch \<Rightarrow> unit action" where
  "MemoryBranch_erase bk b =
     thenE (MemoryBranch_pop bk (parent b) (branch_name b)) (\<lambda>_.
     MemoryBranch_save bk b)"

text \<open>\<^verbatim>\<open>MemoryBranch._update\<close>\<close>

definition MemoryBranch_update :: "backend \<Rightarrow> branch \<Rightarrow> pydict \<Rightarrow> unit action" where
  "MemoryBranch_update bk b new =
     thenE (MemoryBranch_data b) (\<lambda>d.
     thenE (update_items d new) (\<lambda>_.
     MemoryBranch_save bk b))"

text \<open>\<^verbatim>\<open>MemoryBranch._set_yml\<close>\<close>

definition MemoryBranch_set_yml :: "backend \<Rightarrow> branch \<Rightarrow> string \<Rightarrow> unit action" where
  "MemoryBranch_set_yml bk b yml_content =
     thenE (\<lambda>w. (yaml_load bk yml_content, w)) (\<lambda>r.
     thenE (materialize r) (\<lambda>v.
     thenE (MemoryBranch_data (parent b)) (\<lambda>d.
     thenE (store_item d (branch_name b) v) (\<lambda>_.
     MemoryBranch_save bk b))))"

subsection \<open>Observations and schedules\<close>

text \<open>An action keeps an observation of the world when running it never changes what
  is observed, whether it returns or raises.\<close>

definition keeps :: "(world \<Rightarrow> 'c) \<Rightarrow> 'a action \<Rightarrow> bool" where
  "keeps obs m \<longleftrightarrow> (\<forall>w. obs (snd (m w)) = obs w)"

text \<open>The branches above a branch, nearest first.\<close>

fun proper_ancestors :: "branch \<Rightarrow> branch list" where
  "proper_ancestors (Tree tid ds) = []"
| "proper_ancestors (Sub p n ds) = p # proper_ancestors p"

text \<open>The tree knows its file as it is: the tree is in-memory, or the file exists, can
  be examined, and has the modification time the tree recorded when it last loaded or
  saved it, so no other process has changed it since.\<close>

definition in_sync :: "nat \<Rightarrow> world \<Rightarrow> bool" where
  "in_sync tid w \<longleftrightarrow>
     tid < length (trees w) \<and>
     (case filename (trees w ! tid) of
        None \<Rightarrow> False
      | Some None \<Rightarrow> True
      | Some (Some p) \<Rightarrow>
          lastreload (trees w ! tid) \<noteq> None \<and> Stat \<notin> faulty w \<and>
          (case fs w p of None \<Rightarrow> False | Some f \<Rightarrow> mtime (trees w ! tid) = Some (modified f)))"

text \<open>How often \<^verbatim>\<open>_save\<close> of a tree has run: its \<^verbatim>\<open>_save_counter\<close>.\<close>

definition count_saves :: "nat \<Rightarrow> world \<Rightarrow> nat" where
  "count_saves tid w = (case save_counter (trees w ! tid) of None \<Rightarrow> 0 | Some c \<Rightarrow> c)"

text \<open>The environment lets \<open>dt\<close> milliseconds pass.\<close>

definition elapse :: "nat \<Rightarrow> unit action" where
  "elapse dt w = (Inr (), w\<lparr>now := now w + int dt\<rparr>)"

text \<open>A burst of writes \<^verbatim>\<open>b[k] = v\<close>, each after a pause.\<close>

fun burst :: "backend \<Rightarrow> (nat \<times> branch \<times> string \<times> val) list \<Rightarrow> unit action" where
  "burst bk [] = return ()"
| "burst bk ((dt, b, k, v) # rs) =
     thenE (elapse dt) (\<lambda>_.
     thenE (MemoryBranch_setitem bk b k v) (\<lambda>_.
     burst bk rs))"

text \<open>The event loop left alone with the tree's timer: while the timer is armed, wait
  until it is due and deliver its signal; at most \<open>n\<close> times.\<close>

fun run_timer :: "backend \<Rightarrow> nat \<Rightarrow> nat \<Rightarrow> unit action" where
  "run_timer bk tid 0 = return ()"
| "run_timer bk tid (Suc n) =
     thenE (get_tree tid) (\<lambda>t.
     thenE (attr (savetimer t)) (\<lambda>tm w.
       if active tm
       then (thenE (\<lambda>w. (Inr (), w\<lparr>now := max (now w) (deadline tm)\<rparr>)) (\<lambda>_.
             thenE (timer_fires bk tid) (\<lambda>_.
             run_timer bk tid n))) w
       else (Inr (), w)))"

subsection \<open>A small backend and world for concrete runs\<close>

text \<open>A stand-in for the YAML library in closed examples: it reads the empty document
  and two one-line mappings, rejects every other text as malformed, and renders the
  top level of a mapping, scalars as tags.\<close>

definition demo_load :: "string \<Rightarrow> error + (pydict \<times> pydict list) option" where
  "demo_load s =
     (if s = [] then Inr None
      else if s = ''{}'' then Inr (Some ([], []))
      else if s = ''a: 1'' then Inr (Some ([(''a'', Leaf (SInt 1))], []))
      else if s = ''a: {x: 1}'' then Inr (Some ([(''a'', Ref 1)], [[(''x'', Leaf (SInt 1))]]))
      else Inl YAMLError)"

fun demo_show :: "val \<Rightarrow> string" where
  "demo_show (Leaf (SInt i)) = (if i < 0 then ''-'' else []) @ replicate (nat \<bar>i\<bar>) CHR ''|''"
| "demo_show (Leaf (SStr s)) = s"
| "demo_show (Leaf (SBool b)) = (if b then ''true'' else ''false'')"
| "demo_show (Leaf SNone) = ''null''"
| "demo_show (Ref a) = ''{...}''"

definition demo_save :: "pyheap \<Rightarrow> val \<Rightarrow> string" where
  "demo_save h v =
     (case v of
        Leaf s \<Rightarrow> demo_show v
      | Ref a \<Rightarrow> concat (map (\<lambda>(k, x). k @ '': '' @ demo_show x @ ''; '') (h ! a)))"

definition demo :: backend where
  "demo = \<lparr>yaml_load = demo_load, yaml_save = demo_save\<rparr>"

text \<open>A world right after the class definition: the heap holds the class attribute
  \<^verbatim>\<open>MemoryTree._data\<close>, and there is one file with the given text.\<close>

definition world0 :: "string \<Rightarrow> world" where
  "world0 text = \<lparr>heap = [[]], class_data = 0, trees = [],
                  fs = (\<lambda>p. if p = ''cfg.yml'' then Some \<lparr>bytes = text, modified = 0\<rparr> else None),
                  now = 0, faulty = {}, partial = 0, logged = [], disk_writes = []\<rparr>"

text \<open>The world after \<^verbatim>\<open>MemoryTree('cfg.yml')\<close> has returned, the file holding \<open>text\<close>.\<close>

definition started :: "string \<Rightarrow> world" where
  "started text = snd (MemoryTree_init demo (Some ''cfg.yml'') (world0 text))"

text \<open>Another process rewrites a file.\<close>

definition external_edit :: "string \<Rightarrow> string \<Rightarrow> unit action" where
  "external_edit p text w = (Inr (), w\<lparr>fs := (fs w)(p \<mapsto> \<lparr>bytes = text, modified = now w\<rparr>)\<rparr>)"

text \<open>An in-memory tree holding a branch \<^verbatim>\<open>b\<close> and two branches \<^verbatim>\<open>d1\<close>, \<^verbatim>\<open>d2\<close> that serve
  as its defaults.\<close>

definition world3 :: world where
  "world3 = (snd (MemoryTree_init demo None (world0 [])))\<lparr>heap :=
           [[(''b'', Ref 1), (''d1'', Ref 2), (''d2'', Ref 3)],
            [(''k'', Leaf (SInt 1))],
            [(''k'', Leaf (SInt 2)), (''j'', Leaf (SInt 3))],
            [(''k'', Leaf (SInt 4)), (''j'', Leaf (SInt 5)), (''i'', Leaf (SInt 6))]]\<rparr>"

definition branch3 :: branch where
  "branch3 = Sub (Tree 0 []) ''b'' [Sub (Tree 0 []) ''d1'' [], Sub (Tree 0 []) ''d2'' []]"

section \<open>Properties\<close>

lemmas monad_defs = thenE_def return_def raise_def attr_def get_tree_def upd_tree_def log_def

subsection \<open>In-memory trees\<close>

lemma init_in_memory:
  "MemoryTree_init bk None w =
     (Inr (length (trees w)),
      w\<lparr>trees := trees w @ [empty_tree\<lparr>filename := Some None, save_counter := Some 0\<rparr>]\<rparr>)"
  by (simp add: MemoryTree_init_def MemoryTree_load_def thenE_def return_def upd_tree_def
        get_tree_def attr_def raise_def Let_def nth_append empty_tree_def)

text \<open>
  C10. On a tree constructed with no name (\<^verbatim>\<open>MemoryTree(None)\<close>), \<^verbatim>\<open>_reload\<close> returns
  without error and changes nothing; \<^verbatim>\<open>_save\<close>, with any deadtime, returns without error
  and touches neither the data, the file system nor a timer: all it does is count the
  call in \<^verbatim>\<open>_save_counter\<close>. \<^verbatim>\<open>_save_now\<close> raises \<^verbatim>\<open>AttributeError\<close>, because
  \<^verbatim>\<open>_savetimer\<close> was never created, and leaves the world as it was.
\<close>

theorem in_memory_save_reload_save_now:
  "(let tid = length (trees w);
        w1 = snd (MemoryTree_init bk None w)
    in fst (MemoryTree_init bk None w) = Inr tid
     \<and> MemoryTree_reload bk tid w1 = (Inr (), w1)
     \<and> MemoryTree_save bk tid deadtime w1 =
         (Inr (), w1\<lparr>trees := (trees w1)[tid := (trees w1 ! tid)\<lparr>save_counter := Some 1\<rparr>]\<rparr>)
     \<and> MemoryTree_save_now bk tid w1 = (Inl AttributeError, w1))"
  by (simp add: init_in_memory Let_def MemoryTree_reload_def MemoryTree_save_def
        MemoryTree_save_now_def stop_savetimer_def thenE_def return_def upd_tree_def
        get_tree_def attr_def raise_def nth_append empty_tree_def)

subsection \<open>A concrete tree\<close>

lemma started_a1:
  "started ''a: 1'' =
     \<lparr>heap = [[], [(''a'', Leaf (SInt 1))]], class_data = 0,
      trees = [\<lparr>filename = Some (Some ''cfg.yml''), data = Some (Ref 1), mtime = Some 0,
                lastreload = Some 0, lastsave = Some 0, buffer_filename = Some ''cfg.yml.tmp'',
                savetimer = Some \<lparr>interval = 3000, single_shot = True, active = False, deadline = 0\<rparr>,
                save_counter = Some 0\<rparr>],
      fs = (\<lambda>p. if p = ''cfg.yml'' then Some \<lparr>bytes = ''a: 1'', modified = 0\<rparr> else None),
      now = 0, faulty = {}, partial = 0, logged = [], disk_writes = []\<rparr>"
  by (simp add: started_def MemoryTree_init_def MemoryTree_load_def monad_defs read_file_def
        materialize_def os_path_getmtime_def new_dict_def world0_def demo_def demo_load_def
        empty_tree_def relocate_def Let_def loadsavedeadtime_def)

subsection \<open>Saving: the write, replace and restore sequence\<close>

lemma write_and_replace_fails:
  assumes "tid < length (trees w)"
    and "buffer_filename (trees w ! tid) = Some buf" and "buf \<noteq> q" and "buf \<noteq> p"
    and "fs w p = Some f"
    and "faulty w \<inter> {OpenBuffer, WriteBuffer, SyncBuffer, Unlink, Rename} \<noteq> {}"
  shows "\<exists>s w'. write_and_replace bk tid p w = (Inl (OSError s), w')
           \<and> s \<in> faulty w \<inter> {OpenBuffer, WriteBuffer, SyncBuffer, Unlink, Rename}
           \<and> faulty w' = faulty w \<and> now w' = now w \<and> (p \<noteq> q \<longrightarrow> fs w' q = fs w q)
           \<and> trees w' = trees w \<and> heap w' = heap w \<and> logged w' = logged w
           \<and> disk_writes w' = disk_writes w"
proof (cases "OpenBuffer \<in> faulty w")
  case True
  with assms show ?thesis
    by (simp add: write_and_replace_def monad_defs open_w_def)
next
  case no_open: False
  show ?thesis
  proof (cases "WriteBuffer \<in> faulty w")
    case True
    with assms no_open show ?thesis
      by (simp add: write_and_replace_def monad_defs open_w_def tree_data_def write_stream_def
            split: option.split)
  next
    case no_write: False
    show ?thesis
    proof (cases "SyncBuffer \<in> faulty w")
      case True
      with assms no_open no_write show ?thesis
        by (simp add: write_and_replace_def monad_defs open_w_def tree_data_def write_stream_def
              flush_fsync_close_def split: option.split)
    next
      case no_sync: False
      show ?thesis
      proof (cases "Unlink \<in> faulty w")
        case True
        with assms no_open no_write no_sync show ?thesis
          by (simp add: write_and_replace_def monad_defs open_w_def tree_data_def write_stream_def
                flush_fsync_close_def os_unlink_def split: option.split)
      next
        case no_unlink: False
        with assms no_open no_write no_sync have "Rename \<in> faulty w" by auto
        with assms no_open no_write no_sync no_unlink show ?thesis
          apply (simp add: write_and_replace_def monad_defs open_w_def tree_data_def write_stream_def
                flush_fsync_close_def os_unlink_def os_rename_def split: option.split)
          done
      qed
    qed
  qed
qed

text \<open>
  C1. A save that reaches the write sequence (the tree has a backing file \<open>p\<close>, which
  exists, and the deadtime has passed) in which a step of that sequence fails (opening,
  writing or syncing the buffer file, unlinking the target or renaming the buffer onto
  it), while the backup copy and the restoring copy themselves succeed: the call raises
  the error of a failed step, and afterwards the file at \<open>p\<close> holds the bytes it held
  before the call, as does \<open>p.bak\<close>, from which it was restored. No replacement of the
  file is recorded.
\<close>

theorem failed_save_restores_file:
  assumes "tid < length (trees w)"
    and "filename (trees w ! tid) = Some (Some p)"
    and "save_counter (trees w ! tid) = Some c"
    and "lastsave (trees w ! tid) = Some ls"
    and "mtime (trees w ! tid) = Some m"
    and "buffer_filename (trees w ! tid) = Some (p @ ''.tmp'')"
    and "ls + (case deadtime of None \<Rightarrow> loadsavedeadtime | Some d \<Rightarrow> d) * 1000 < now w"
    and "fs w p = Some f"
    and "Stat \<notin> faulty w" and "Backup \<notin> faulty w" and "Restore \<notin> faulty w"
    and "faulty w \<inter> {OpenBuffer, WriteBuffer, SyncBuffer, Unlink, Rename} \<noteq> {}"
  shows "\<exists>s w'. MemoryTree_save bk tid deadtime w = (Inl (OSError s), w')
           \<and> s \<in> faulty w \<inter> {OpenBuffer, WriteBuffer, SyncBuffer, Unlink, Rename}
           \<and> map_option bytes (fs w' p) = Some (bytes f)
           \<and> map_option bytes (fs w' (p @ ''.bak'')) = Some (bytes f)
           \<and> heap w' = heap w \<and> disk_writes w' = disk_writes w"
proof -
  define w1 where "w1 = w\<lparr>trees := (trees w)[tid := (trees w ! tid)\<lparr>save_counter := Some (c + 1), lastsave := Some (now w)\<rparr>],
                         logged := (if m \<noteq> modified f then logged w @ [''Config file has recently been changed on your harddisk. These changes might have been overwritten now.''] else logged w),
                         fs := (fs w)(p @ ''.bak'' \<mapsto> \<lparr>bytes = bytes f, modified = now w\<rparr>)\<rparr>"
  have pre: "tid < length (trees w1)" "buffer_filename (trees w1 ! tid) = Some (p @ ''.tmp'')"
    "p @ ''.tmp'' \<noteq> p @ ''.bak''" "p @ ''.tmp'' \<noteq> p" "fs w1 p = Some f"
    "faulty w1 \<inter> {OpenBuffer, WriteBuffer, SyncBuffer, Unlink, Rename} \<noteq> {}"
    using assms by (simp_all add: w1_def)
  from write_and_replace_fails [OF pre, where bk = bk] obtain s w2 where
    w2: "write_and_replace bk tid p w1 = (Inl (OSError s), w2)"
      "s \<in> faulty w1 \<inter> {OpenBuffer, WriteBuffer, SyncBuffer, Unlink, Rename}"
      "faulty w2 = faulty w1" "now w2 = now w1" "p \<noteq> p @ ''.bak'' \<longrightarrow> fs w2 (p @ ''.bak'') = fs w1 (p @ ''.bak'')"
      "heap w2 = heap w1" "disk_writes w2 = disk_writes w1"
    by blast
  have "MemoryTree_save bk tid deadtime w =
          thenE (try_except_reraise (write_and_replace bk tid p)
                         (thenE (copyfile Restore (p @ ''.bak'') p) (\<lambda>_.
                          log ''Error writing to file. Backup version was restored.''))) (\<lambda>_.
                thenE (os_path_getmtime p) (\<lambda>m'.
                upd_tree tid (\<lambda>t. t\<lparr>mtime := Some m'\<rparr>))) w1"
    using assms
    by (simp add: MemoryTree_save_def write_file_def monad_defs Let_def os_path_getmtime_def
          copyfile_def w1_def)
  also have "\<dots> = (Inl (OSError s), w2\<lparr>fs := (fs w2)(p \<mapsto> \<lparr>bytes = bytes f, modified = now w\<rparr>),
                       logged := logged w2 @ [''Error writing to file. Backup version was restored.'']\<rparr>)"
    using w2 assms
    by (simp add: thenE_def try_except_reraise_def copyfile_def log_def w1_def)
  finally show ?thesis
    using w2 by (simp add: w1_def)
qed

text \<open>The theorem at work: the rename is made to fail on the tree of \<open>started\<close>, five
  seconds after start.\<close>

theorem failed_save_restores_file_witness:
  "(let w = (started ''a: 1'')\<lparr>now := 5000, faulty := {Rename}\<rparr>
    in \<exists>s w'. MemoryTree_save demo 0 None w = (Inl (OSError s), w')
         \<and> s \<in> faulty w \<inter> {OpenBuffer, WriteBuffer, SyncBuffer, Unlink, Rename}
         \<and> map_option bytes (fs w' ''cfg.yml'') = Some ''a: 1''
         \<and> map_option bytes (fs w' ''cfg.yml.bak'') = Some ''a: 1''
         \<and> heap w' = heap w \<and> disk_writes w' = disk_writes w)"
  using failed_save_restores_file [of 0 "(started ''a: 1'')\<lparr>now := 5000, faulty := {Rename}\<rparr>"
      "''cfg.yml''" 0 0 0 None "\<lparr>bytes = ''a: 1'', modified = 0\<rparr>" demo]
  by (simp add: started_a1 loadsavedeadtime_def)

subsection \<open>Loading\<close>

text \<open>
  C4, as the code has it. \<^verbatim>\<open>_load\<close> has no handler around \<^verbatim>\<open>load(f)\<close>: when the backend
  rejects the file's text, its exception leaves \<^verbatim>\<open>_load\<close> and nothing has changed, neither
  the tree's root nor the log. When the backend returns \<^verbatim>\<open>None\<close> (an empty file), the root
  becomes a new empty dictionary, the modification time and the reload time are
  recorded, and nothing is logged.
\<close>

theorem load_malformed_or_empty:
  assumes "tid < length (trees w)"
    and "filename (trees w ! tid) = Some (Some p)"
    and "ReadFile \<notin> faulty w"
    and "fs w p = Some f"
  shows "(yaml_load bk (bytes f) = Inl e \<longrightarrow> MemoryTree_load bk tid w = (Inl e, w))
       \<and> (yaml_load bk (bytes f) = Inr None \<longrightarrow> Stat \<notin> faulty w \<longrightarrow>
            MemoryTree_load bk tid w =
              (Inr (), w\<lparr>heap := heap w @ [[]],
                         trees := (trees w)[tid := (trees w ! tid)\<lparr>mtime := Some (modified f),
                                    lastreload := Some (now w), data := Some (Ref (length (heap w)))\<rparr>]\<rparr>))"
  using assms
  by (simp add: MemoryTree_load_def monad_defs read_file_def materialize_def
        os_path_getmtime_def new_dict_def)

theorem load_malformed_or_empty_witness:
  "(let w = snd (external_edit ''cfg.yml'' ''a: ['' (started ''a: 1''));
        w' = snd (external_edit ''cfg.yml'' [] (started ''a: 1''))
    in MemoryTree_load demo 0 w = (Inl YAMLError, w)
     \<and> fst (MemoryTree_load demo 0 w') = Inr ()
     \<and> data (trees (snd (MemoryTree_load demo 0 w')) ! 0) = Some (Ref 2)
     \<and> heap (snd (MemoryTree_load demo 0 w')) ! 2 = []
     \<and> logged (snd (MemoryTree_load demo 0 w')) = [])"
  using load_malformed_or_empty [of 0 "snd (external_edit ''cfg.yml'' ''a: ['' (started ''a: 1''))"
      "''cfg.yml''" "\<lparr>bytes = ''a: ['', modified = 0\<rparr>" demo YAMLError]
    load_malformed_or_empty [of 0 "snd (external_edit ''cfg.yml'' [] (started ''a: 1''))"
      "''cfg.yml''" "\<lparr>bytes = [], modified = 0\<rparr>" demo YAMLError]
  by (simp add: started_a1 external_edit_def Let_def demo_def demo_load_def)

text \<open>C4 as stated fails: the file of a running tree is replaced by the malformed text
  \<^verbatim>\<open>a: [\<close>; \<^verbatim>\<open>_load\<close> raises, the root is still the old mapping and nothing is logged.\<close>

theorem load_malformed_raises:
  "(let w = snd (external_edit ''cfg.yml'' ''a: ['' (started ''a: 1''))
    in MemoryTree_load demo 0 w = (Inl YAMLError, w)
     \<and> data (trees w ! 0) = Some (Ref 1) \<and> heap w ! 1 = [(''a'', Leaf (SInt 1))] \<and> logged w = [])"
  by (simp add: started_a1 external_edit_def Let_def MemoryTree_load_def monad_defs read_file_def
        demo_def demo_load_def)

subsection \<open>The deferred save\<close>

text \<open>
  C7, as the code has it. When \<^verbatim>\<open>_save\<close> is called before the deadtime \<open>d\<close> has passed
  since the last save and the timer is idle, the call only counts itself and starts the
  timer. The timer's interval was fixed in \<^verbatim>\<open>__init__\<close> to the default deadtime, so it
  is due 3000 ms after this call, whatever time remains of the window and whatever \<open>d\<close>
  is: before that the event loop delivers nothing, from then on it stops the timer and
  calls \<^verbatim>\<open>_save()\<close>.
\<close>

theorem save_arms_timer:
  assumes "tid < length (trees w)"
    and "filename (trees w ! tid) = Some (Some p)"
    and "save_counter (trees w ! tid) = Some c"
    and "lastsave (trees w ! tid) = Some ls"
    and "savetimer (trees w ! tid) = Some tm"
    and "\<not> active tm" and "single_shot tm"
    and "interval tm = loadsavedeadtime * 1000"
    and "\<not> ls + (case deadtime of None \<Rightarrow> loadsavedeadtime | Some d \<Rightarrow> d) * 1000 < now w"
  shows "(let w' = w\<lparr>trees := (trees w)[tid := (trees w ! tid)\<lparr>save_counter := Some (c + 1),
                        savetimer := Some (tm\<lparr>active := True, deadline := now w + 3000\<rparr>)\<rparr>]\<rparr>
          in MemoryTree_save bk tid deadtime w = (Inr (), w')
           \<and> (\<forall>T. T < now w + 3000 \<longrightarrow> timer_fires bk tid (w'\<lparr>now := T\<rparr>) = (Inr (), w'\<lparr>now := T\<rparr>))
           \<and> (\<forall>T. now w + 3000 \<le> T \<longrightarrow>
                 timer_fires bk tid (w'\<lparr>now := T\<rparr>) =
                 MemoryTree_save bk tid None
                   (w\<lparr>now := T, trees := (trees w)[tid := (trees w ! tid)\<lparr>save_counter := Some (c + 1),
                        savetimer := Some (tm\<lparr>deadline := now w + 3000, active := False\<rparr>)\<rparr>]\<rparr>)))"
  unfolding Let_def
proof (intro conjI allI impI)
  show "MemoryTree_save bk tid deadtime w =
           (Inr (), w\<lparr>trees := (trees w)[tid := (trees w ! tid)\<lparr>save_counter := Some (c + 1),
                        savetimer := Some (tm\<lparr>active := True, deadline := now w + 3000\<rparr>)\<rparr>]\<rparr>)"
    using assms
    by (simp add: MemoryTree_save_def start_savetimer_def monad_defs loadsavedeadtime_def Let_def)
next
  fix T assume "T < now w + 3000"
  with assms show "timer_fires bk tid (w\<lparr>trees := (trees w)[tid := (trees w ! tid)\<lparr>save_counter := Some (c + 1),
                        savetimer := Some (tm\<lparr>active := True, deadline := now w + 3000\<rparr>)\<rparr>], now := T\<rparr>) = 
        (Inr (), w\<lparr>trees := (trees w)[tid := (trees w ! tid)\<lparr>save_counter := Some (c + 1),
                        savetimer := Some (tm\<lparr>active := True, deadline := now w + 3000\<rparr>)\<rparr>], now := T\<rparr>)"
    by (simp add: timer_fires_def monad_defs)
next
  fix T assume "now w + 3000 \<le> T"
  with assms show "timer_fires bk tid (w\<lparr>trees := (trees w)[tid := (trees w ! tid)\<lparr>save_counter := Some (c + 1),
                        savetimer := Some (tm\<lparr>active := True, deadline := now w + 3000\<rparr>)\<rparr>], now := T\<rparr>) = 
                 MemoryTree_save bk tid None
                   (w\<lparr>now := T, trees := (trees w)[tid := (trees w ! tid)\<lparr>save_counter := Some (c + 1),
                        savetimer := Some (tm\<lparr>deadline := now w + 3000, active := False\<rparr>)\<rparr>]\<rparr>)"
    by (simp add: timer_fires_def monad_defs)
qed

theorem save_arms_timer_witness:
  "(let w = snd (elapse 1000 (started ''a: 1''));
        w' = w\<lparr>trees := [(trees w ! 0)\<lparr>save_counter := Some 1,
                 savetimer := Some \<lparr>interval = 3000, single_shot = True, active = True, deadline = 4000\<rparr>\<rparr>]\<rparr>
    in MemoryTree_save demo 0 None w = (Inr (), w')
     \<and> timer_fires demo 0 (w'\<lparr>now := 3999\<rparr>) = (Inr (), w'\<lparr>now := 3999\<rparr>)
     \<and> timer_fires demo 0 (w'\<lparr>now := 4000\<rparr>) =
         MemoryTree_save demo 0 None
           (w\<lparr>now := 4000, trees := [(trees w ! 0)\<lparr>save_counter := Some 1,
                 savetimer := Some \<lparr>interval = 3000, single_shot = True, active = False, deadline = 4000\<rparr>\<rparr>]\<rparr>))"
  using save_arms_timer [of 0 "snd (elapse 1000 (started ''a: 1''))" "''cfg.yml''" 0 0
      "\<lparr>interval = 3000, single_shot = True, active = False, deadline = 0\<rparr>" None demo]
  by (simp add: started_a1 loadsavedeadtime_def elapse_def Let_def)

text \<open>C7 as stated fails: one second after the last save the remaining time is 2000 ms,
  and the timer is set to fire after 3000 ms.\<close>

theorem timer_not_set_to_remaining_time:
  "(let w = snd (thenE (elapse 1000) (\<lambda>_. MemoryTree_save demo 0 None) (started ''a: 1''));
        t = trees w ! 0
    in now w = 1000 \<and> lastsave t = Some 0 \<and> map_option active (savetimer t) = Some True
     \<and> map_option deadline (savetimer t) = Some 4000
     \<and> map_option (\<lambda>tm. deadline tm - now w) (savetimer t)
         \<noteq> map_option (\<lambda>ls. (ls + loadsavedeadtime * 1000) - now w) (lastsave t))"
  by (simp add: started_a1 elapse_def Let_def MemoryTree_save_def start_savetimer_def monad_defs
        loadsavedeadtime_def)

subsection \<open>Frames: what an action leaves alone\<close>

named_theorems keeps_intros

lemma keepsD: "keeps obs m \<Longrightarrow> m w = (r, w') \<Longrightarrow> obs w' = obs w"
  by (metis keeps_def snd_conv)

lemma keeps_thenE [keeps_intros]:
  "keeps obs m \<Longrightarrow> (\<And>x. keeps obs (f x)) \<Longrightarrow> keeps obs (thenE m f)"
  unfolding keeps_def thenE_def
  by (auto split: prod.split sum.split) (metis snd_conv)+

lemma keeps_try [keeps_intros]:
  "keeps obs m \<Longrightarrow> keeps obs h \<Longrightarrow> keeps obs (try_except_reraise m h)"
  unfolding keeps_def try_except_reraise_def
  by (auto split: prod.split sum.split) (metis snd_conv)+

lemma keeps_return [keeps_intros]: "keeps obs (return x)"
  by (simp add: keeps_def return_def)

lemma keeps_raise [keeps_intros]: "keeps obs (raise e)"
  by (simp add: keeps_def raise_def)

lemma keeps_attr [keeps_intros]: "keeps obs (attr x)"
  by (simp add: keeps_def attr_def return_def raise_def split: option.split)

lemma keeps_get_tree [keeps_intros]: "keeps obs (get_tree tid)"
  by (simp add: keeps_def get_tree_def)

lemma keeps_if [keeps_intros]:
  "(c \<Longrightarrow> keeps obs m) \<Longrightarrow> (\<not> c \<Longrightarrow> keeps obs n) \<Longrightarrow> keeps obs (if c then m else n)"
  by simp

lemma keeps_if_world [keeps_intros]:
  "keeps obs m \<Longrightarrow> keeps obs n \<Longrightarrow> keeps obs (\<lambda>w. if c w then m w else n w)"
  by (simp add: keeps_def)

lemma keeps_case_option [keeps_intros]:
  "keeps obs m \<Longrightarrow> (\<And>x. keeps obs (f x)) \<Longrightarrow> keeps obs (case v of None \<Rightarrow> m | Some x \<Rightarrow> f x)"
  by (simp split: option.split)

lemma keeps_const [keeps_intros]: "keeps obs (\<lambda>w. (r, w))"
  by (simp add: keeps_def)

lemma keeps_log [keeps_intros]:
  "(\<And>w l. obs (w\<lparr>logged := l\<rparr>) = obs w) \<Longrightarrow> keeps obs (log msg)"
  by (simp add: keeps_def log_def)

lemma keeps_upd_tree [keeps_intros]:
  "(\<And>w. obs (w\<lparr>trees := (trees w)[tid := f (trees w ! tid)]\<rparr>) = obs w) \<Longrightarrow> keeps obs (upd_tree tid f)"
  by (simp add: keeps_def upd_tree_def)

lemma keeps_getmtime [keeps_intros]: "keeps obs (os_path_getmtime p)"
  by (simp add: keeps_def os_path_getmtime_def split: option.split)

lemma keeps_read_file [keeps_intros]: "keeps obs (read_file p)"
  by (simp add: keeps_def read_file_def split: option.split)

lemma keeps_copyfile [keeps_intros]:
  "(\<And>w f. obs (w\<lparr>fs := f\<rparr>) = obs w) \<Longrightarrow> keeps obs (copyfile step src dst)"
  by (simp add: keeps_def copyfile_def split: option.split)

lemma keeps_open_w [keeps_intros]:
  "(\<And>w f. obs (w\<lparr>fs := f\<rparr>) = obs w) \<Longrightarrow> keeps obs (open_w p)"
  by (simp add: keeps_def open_w_def)

lemma keeps_write_stream [keeps_intros]:
  "(\<And>w f. obs (w\<lparr>fs := f\<rparr>) = obs w) \<Longrightarrow> keeps obs (\<lambda>w. write_stream p (g w) w)"
  by (simp add: keeps_def write_stream_def)

lemma keeps_upd_tree_world [keeps_intros]:
  "(\<And>w x. obs (w\<lparr>trees := (trees w)[tid := f x (trees w ! tid)]\<rparr>) = obs w)
     \<Longrightarrow> keeps obs (\<lambda>w. upd_tree tid (f (g w)) w)"
  by (simp add: keeps_def upd_tree_def)

lemma keeps_flush [keeps_intros]: "keeps obs flush_fsync_close"
  by (simp add: keeps_def flush_fsync_close_def)

lemma keeps_unlink [keeps_intros]:
  "(\<And>w f. obs (w\<lparr>fs := f\<rparr>) = obs w) \<Longrightarrow> keeps obs (os_unlink p)"
  by (simp add: keeps_def os_unlink_def split: option.split)

lemma keeps_rename [keeps_intros]:
  "(\<And>w f d. obs (w\<lparr>fs := f, disk_writes := d\<rparr>) = obs w) \<Longrightarrow> keeps obs (os_rename src dst)"
  by (simp add: keeps_def os_rename_def split: option.split)

lemma keeps_tree_data [keeps_intros]: "keeps obs (tree_data tid)"
  by (simp add: keeps_def tree_data_def monad_defs split: option.split)

lemma keeps_write_and_replace [keeps_intros]:
  assumes "\<And>w f. obs (w\<lparr>fs := f\<rparr>) = obs w"
    and "\<And>w f d. obs (w\<lparr>fs := f, disk_writes := d\<rparr>) = obs w"
  shows "keeps obs (write_and_replace bk tid p)"
  unfolding write_and_replace_def
  by (intro keeps_intros assms)

lemma keeps_write_file:
  assumes "\<And>w f. obs (w\<lparr>fs := f\<rparr>) = obs w"
    and "\<And>w f d. obs (w\<lparr>fs := f, disk_writes := d\<rparr>) = obs w"
    and "\<And>w l. obs (w\<lparr>logged := l\<rparr>) = obs w"
    and "\<And>w x. obs (w\<lparr>trees := (trees w)[tid := (trees w ! tid)\<lparr>lastsave := x\<rparr>]\<rparr>) = obs w"
    and "\<And>w x. obs (w\<lparr>trees := (trees w)[tid := (trees w ! tid)\<lparr>mtime := x\<rparr>]\<rparr>) = obs w"
  shows "keeps obs (write_file bk tid p)"
  unfolding write_file_def
  by (intro keeps_intros assms)

lemma keeps_start_savetimer:
  assumes "\<And>w x. obs (w\<lparr>trees := (trees w)[tid := (trees w ! tid)\<lparr>savetimer := x\<rparr>]\<rparr>) = obs w"
  shows "keeps obs (start_savetimer tid)"
  unfolding start_savetimer_def
  apply (intro keeps_intros)
  apply (simp add: keeps_def upd_tree_def assms)
  done

lemma keeps_save_body:
  assumes "\<And>w f. obs (w\<lparr>fs := f\<rparr>) = obs w"
    and "\<And>w f d. obs (w\<lparr>fs := f, disk_writes := d\<rparr>) = obs w"
    and "\<And>w l. obs (w\<lparr>logged := l\<rparr>) = obs w"
    and "\<And>w x. obs (w\<lparr>trees := (trees w)[tid := (trees w ! tid)\<lparr>lastsave := x\<rparr>]\<rparr>) = obs w"
    and "\<And>w x. obs (w\<lparr>trees := (trees w)[tid := (trees w ! tid)\<lparr>mtime := x\<rparr>]\<rparr>) = obs w"
    and "\<And>w x. obs (w\<lparr>trees := (trees w)[tid := (trees w ! tid)\<lparr>savetimer := x\<rparr>]\<rparr>) = obs w"
    and "\<And>w x. obs (w\<lparr>trees := (trees w)[tid := (trees w ! tid)\<lparr>save_counter := x\<rparr>]\<rparr>) = obs w"
  shows "keeps obs (MemoryTree_save bk tid dt)"
  unfolding MemoryTree_save_def Let_def
  by (intro keeps_intros keeps_write_file keeps_start_savetimer assms)

lemma save_keeps_heap: "keeps heap (MemoryTree_save bk tid dt)"
  by (rule keeps_save_body) simp_all

lemma thenE_Inr:
  "thenE m f w = (Inr r, w') \<longleftrightarrow> (\<exists>x w1. m w = (Inr x, w1) \<and> f x w1 = (Inr r, w'))"
  by (auto simp: thenE_def split: prod.splits sum.splits)

lemma nth_upd_field:
  assumes "\<And>t. g (f t) = g t"
  shows "g (xs[i := f (xs ! i)] ! j) = g (xs ! j)"
proof (cases "i < length xs")
  case True
  then show ?thesis using assms by (simp add: nth_list_update)
next
  case False
  then have "xs[i := f (xs ! i)] = xs" by (intro list_update_beyond) simp
  then show ?thesis by simp
qed

lemma keeps_deref [keeps_intros]: "keeps obs (deref v)"
  by (simp add: keeps_def deref_def split: val.split)

lemma keeps_subscript [keeps_intros]: "keeps obs (subscript v k)"
  unfolding subscript_def by (intro keeps_intros)

lemma keeps_contains [keeps_intros]: "keeps obs (contains v k)"
  unfolding contains_def by (intro keeps_intros)

lemma keeps_MemoryBranch_data [keeps_intros]: "keeps obs (MemoryBranch_data b)"
  by (induction b) (auto intro!: keeps_intros)

lemma keeps_own_item [keeps_intros]: "keeps obs (own_item b k)"
  unfolding own_item_def by (intro keeps_intros)

lemma keeps_store_item [keeps_intros]:
  "(\<And>w h. obs (w\<lparr>heap := h\<rparr>) = obs w) \<Longrightarrow> keeps obs (store_item v k x)"
  by (simp add: keeps_def store_item_def split: val.split)

lemma keeps_pop_item [keeps_intros]:
  "(\<And>w h. obs (w\<lparr>heap := h\<rparr>) = obs w) \<Longrightarrow> keeps obs (pop_item v k)"
  by (simp add: keeps_def pop_item_def split: val.split option.split)

lemma keeps_update_items [keeps_intros]:
  "(\<And>w h. obs (w\<lparr>heap := h\<rparr>) = obs w) \<Longrightarrow> keeps obs (update_items v new)"
  by (simp add: keeps_def update_items_def split: val.split)

lemma keeps_new_dict [keeps_intros]:
  "(\<And>w h. obs (w\<lparr>heap := h\<rparr>) = obs w) \<Longrightarrow> keeps obs (new_dict d)"
  by (simp add: keeps_def new_dict_def)

lemma keeps_copy_dict [keeps_intros]:
  "(\<And>w h. obs (w\<lparr>heap := h\<rparr>) = obs w) \<Longrightarrow> keeps obs (copy_dict v)"
  unfolding copy_dict_def by (intro keeps_intros)

lemma keeps_materialize [keeps_intros]:
  "(\<And>w h. obs (w\<lparr>heap := h\<rparr>) = obs w) \<Longrightarrow> keeps obs (materialize r)"
  by (simp add: keeps_def materialize_def split: option.split prod.split)

lemma count_saves_heap: "count_saves tid (w\<lparr>heap := h\<rparr>) = count_saves tid w"
  by (simp add: count_saves_def)

lemma save_counts:
  assumes "MemoryTree_save bk tid dt w = (Inr u, w')"
  shows "count_saves tid w' = count_saves tid w + 1"
proof -
  let ?rest = "\<lambda>t. thenE (attr (filename t)) (\<lambda>fname.
       case fname of
         None \<Rightarrow> return ()
       | Some p \<Rightarrow>
           thenE (attr (lastsave t)) (\<lambda>ls w.
             if ls + (case dt of None \<Rightarrow> loadsavedeadtime | Some d \<Rightarrow> d) * 1000 < now w
             then write_file bk tid p w else start_savetimer tid w))"
  have rest: "keeps (count_saves tid) (?rest t)" for t :: tree
    by (intro keeps_intros keeps_write_file keeps_start_savetimer)
       (simp_all add: count_saves_def nth_upd_field)
  from assms obtain c where c: "tid < length (trees w)" "save_counter (trees w ! tid) = Some c"
    and r: "?rest (trees w ! tid) (w\<lparr>trees := (trees w)[tid := (trees w ! tid)\<lparr>save_counter := Some (c + 1)\<rparr>]\<rparr>) = (Inr u, w')"
    by (auto simp: MemoryTree_save_def Let_def thenE_Inr get_tree_def attr_def upd_tree_def
          return_def raise_def split: if_splits option.splits)
  from keepsD [OF rest r] c show ?thesis
    by (simp add: count_saves_def)
qed

lemma MemoryBranch_save_root: "MemoryBranch_save bk b = MemoryTree_save bk (root b) None"
  by (induction b) simp_all

lemma root_parent: "root (parent b) = root b"
  by (cases b) simp_all

lemma setattr_counts:
  assumes "MemoryBranch_setattr bk b k v w = (Inr u, w')" and "\<not> private_name k"
  shows "count_saves (root b) w' = count_saves (root b) w + 1"
proof -
  from assms obtain d w1 w2 where
    "MemoryBranch_data b w = (Inr d, w1)" "store_item d k v w1 = (Inr (), w2)"
    "MemoryTree_save bk (root b) None w2 = (Inr u, w')"
    by (auto simp: MemoryBranch_setattr_def thenE_Inr MemoryBranch_save_root)
  moreover have "keeps (count_saves (root b)) (MemoryBranch_data b)"
    "keeps (count_saves (root b)) (store_item d k v)"
    by (intro keeps_intros count_saves_heap)+
  ultimately show ?thesis
    by (metis keepsD save_counts)
qed

subsection \<open>Reading through the defaults\<close>

lemma own_item_reads: "own_item b k w = (fst (own_item b k w), w)"
  using keeps_own_item [of "\<lambda>w. w" b k] by (simp add: keeps_def prod_eq_iff)

lemma search_defaults_Cons:
  "search_defaults (d # ds) k w =
     (if fst (own_item d k w) = Inl KeyError then search_defaults ds k w
      else (fst (own_item d k w), w))"
proof -
  obtain r where r: "own_item d k w = (r, w)"
    using own_item_reads [of d k w] by simp
  show ?thesis
  proof (cases r)
    case (Inl e)
    with r show ?thesis by (cases e) simp_all
  next
    case (Inr x)
    with r show ?thesis by simp
  qed
qed

lemma getitem_after_reload:
  assumes "MemoryBranch_reload bk b w = (Inr (), w')"
  shows "MemoryBranch_getitem bk b k w =
     (if fst (own_item b k w') = Inl KeyError then search_defaults (defaults b) k w'
      else (fst (own_item b k w'), w'))"
proof -
  obtain r where r: "own_item b k w' = (r, w')"
    using own_item_reads [of b k w'] by simp
  show ?thesis
  proof (cases r)
    case (Inl e)
    with r assms show ?thesis by (cases e) (simp_all add: MemoryBranch_getitem_def thenE_def)
  next
    case (Inr x)
    with r assms show ?thesis by (simp add: MemoryBranch_getitem_def thenE_def)
  qed
qed

text \<open>
  C3. A read of \<open>k\<close> through a branch \<open>b\<close> with the defaults \<open>[d1, d2]\<close>, once the
  reload check at its start has returned (leaving the world \<open>w'\<close>): it changes nothing
  further; it returns \<open>b\<close>'s own item when \<open>b\<close>'s own data has \<open>k\<close>; when that lookup
  raises \<^verbatim>\<open>KeyError\<close> it returns \<open>d1\<close>'s own item if there is one, and \<open>d2\<close>'s own item
  if \<open>d1\<close>'s lookup raises \<^verbatim>\<open>KeyError\<close> too; and it raises \<^verbatim>\<open>KeyError\<close> exactly when
  all three lookups do.
\<close>

theorem defaults_precedence:
  assumes "MemoryBranch_reload bk b w = (Inr (), w')" and "defaults b = [d1, d2]"
  shows "snd (MemoryBranch_getitem bk b k w) = w'
       \<and> (fst (own_item b k w') = Inr v \<longrightarrow> fst (MemoryBranch_getitem bk b k w) = Inr v)
       \<and> (fst (own_item b k w') = Inl KeyError \<and> fst (own_item d1 k w') = Inr v
            \<longrightarrow> fst (MemoryBranch_getitem bk b k w) = Inr v)
       \<and> (fst (own_item b k w') = Inl KeyError \<and> fst (own_item d1 k w') = Inl KeyError
            \<and> fst (own_item d2 k w') = Inr v
            \<longrightarrow> fst (MemoryBranch_getitem bk b k w) = Inr v)
       \<and> (fst (MemoryBranch_getitem bk b k w) = Inl KeyError
            \<longleftrightarrow> fst (own_item b k w') = Inl KeyError \<and> fst (own_item d1 k w') = Inl KeyError
              \<and> fst (own_item d2 k w') = Inl KeyError)"
  by (simp add: getitem_after_reload [OF assms(1)] assms(2) search_defaults_Cons
        del: search_defaults.simps(2))

lemmas eval_defs = world3_def branch3_def init_in_memory world0_def empty_tree_def own_item_def
  MemoryTree_reload_def tree_data_def subscript_def deref_def monad_defs

theorem defaults_precedence_witness:
  "map (\<lambda>k. fst (MemoryBranch_getitem demo branch3 k world3)) [''k'', ''j'', ''i'', ''z'']
     = [Inr (Leaf (SInt 1)), Inr (Leaf (SInt 3)), Inr (Leaf (SInt 6)), Inl KeyError]"
  using defaults_precedence [of demo branch3 world3 world3 "Sub (Tree 0 []) ''d1'' []" "Sub (Tree 0 []) ''d2'' []" "''k''" "Leaf (SInt 1)"]
    defaults_precedence [of demo branch3 world3 world3 "Sub (Tree 0 []) ''d1'' []" "Sub (Tree 0 []) ''d2'' []" "''j''" "Leaf (SInt 3)"]
    defaults_precedence [of demo branch3 world3 world3 "Sub (Tree 0 []) ''d1'' []" "Sub (Tree 0 []) ''d2'' []" "''i''" "Leaf (SInt 6)"]
    defaults_precedence [of demo branch3 world3 world3 "Sub (Tree 0 []) ''d1'' []" "Sub (Tree 0 []) ''d2'' []" "''z''" "Leaf (SInt 6)"]
  by (simp add: eval_defs)


subsection \<open>How often an operation saves\<close>

lemma counts_kept:
  "keeps (count_saves tid) (MemoryBranch_data b)"
  "keeps (count_saves tid) (contains d k)"
  "keeps (count_saves tid) (store_item d k v)"
  "keeps (count_saves tid) (pop_item d k)"
  "keeps (count_saves tid) (update_items d new)"
  "keeps (count_saves tid) (copy_dict v)"
  "keeps (count_saves tid) (materialize r)"
  "keeps (count_saves tid) (return x)"
  by (intro keeps_intros count_saves_heap)+

lemma branch_save_counts:
  "MemoryBranch_save bk b w = (Inr u, w') \<Longrightarrow> count_saves (root b) w' = count_saves (root b) w + 1"
  by (simp add: MemoryBranch_save_root save_counts)

lemma setitem_counts:
  assumes "MemoryBranch_setitem bk b k v w = (Inr u, w')" and "\<not> private_name k"
  shows "count_saves (root b) w' = count_saves (root b) w + 1"
proof -
  from assms obtain d w1 present w2 where
    d: "MemoryBranch_data b w = (Inr d, w1)" and c: "contains d k w1 = (Inr present, w2)"
    and rest: "(if present then MemoryBranch_setattr bk b k v
       else
         thenE (if isbranch v then copy_dict v else return v) (\<lambda>x.
         thenE (MemoryBranch_data b) (\<lambda>d'.
         thenE (store_item d' k x) (\<lambda>_.
         MemoryBranch_save bk b)))) w2 = (Inr u, w')"
    by (auto simp: MemoryBranch_setitem_def thenE_Inr)
  have pre: "count_saves (root b) w2 = count_saves (root b) w"
    using keepsD [OF counts_kept(1) d] keepsD [OF counts_kept(2) c] by simp
  show ?thesis
  proof (cases present)
    case True
    with rest pre assms(2) show ?thesis by (simp add: setattr_counts)
  next
    case False
    with rest obtain x w3 d' w4 w5 where
      "(if isbranch v then copy_dict v else return v) w2 = (Inr x, w3)"
      "MemoryBranch_data b w3 = (Inr d', w4)" "store_item d' k x w4 = (Inr (), w5)"
      "MemoryBranch_save bk b w5 = (Inr u, w')"
      by (auto simp: thenE_Inr)
    moreover have "keeps (count_saves (root b)) (if isbranch v then copy_dict v else return v)"
      by (simp add: counts_kept)
    ultimately show ?thesis
      using pre by (metis keepsD counts_kept(1,3) branch_save_counts)
  qed
qed

lemma pop_counts:
  assumes "MemoryBranch_pop bk b k w = (Inr x, w')"
  shows "count_saves (root b) w' = count_saves (root b) w + 1"
proof -
  from assms obtain d w1 w2 u where
    "MemoryBranch_data b w = (Inr d, w1)" "pop_item d k w1 = (Inr x, w2)"
    "MemoryBranch_save bk b w2 = (Inr u, w')"
    by (auto simp: MemoryBranch_pop_def thenE_Inr return_def)
  then show ?thesis
    by (metis keepsD counts_kept(1,4) branch_save_counts)
qed

lemma update_counts:
  assumes "MemoryBranch_update bk b new w = (Inr u, w')"
  shows "count_saves (root b) w' = count_saves (root b) w + 1"
proof -
  from assms obtain d w1 w2 where
    "MemoryBranch_data b w = (Inr d, w1)" "update_items d new w1 = (Inr (), w2)"
    "MemoryBranch_save bk b w2 = (Inr u, w')"
    by (auto simp: MemoryBranch_update_def thenE_Inr)
  then show ?thesis
    by (metis keepsD counts_kept(1,5) branch_save_counts)
qed

lemma set_yml_counts:
  assumes "MemoryBranch_set_yml bk b s w = (Inr u, w')"
  shows "count_saves (root b) w' = count_saves (root b) w + 1"
proof -
  from assms obtain r v w1 d w2 w3 where
    "materialize r w = (Inr v, w1)"
    "MemoryBranch_data (parent b) w1 = (Inr d, w2)" "store_item d (branch_name b) v w2 = (Inr (), w3)"
    "MemoryBranch_save bk b w3 = (Inr u, w')"
    by (auto simp: MemoryBranch_set_yml_def thenE_Inr)
  then show ?thesis
    by (metis keepsD counts_kept(1,3,7) branch_save_counts)
qed

lemma erase_counts:
  assumes "MemoryBranch_erase bk b w = (Inr u, w')"
  shows "count_saves (root b) w' = count_saves (root b) w + 2"
proof -
  from assms obtain x w1 where
    "MemoryBranch_pop bk (parent b) (branch_name b) w = (Inr x, w1)"
    "MemoryBranch_save bk b w1 = (Inr u, w')"
    by (auto simp: MemoryBranch_erase_def thenE_Inr)
  then show ?thesis
    using pop_counts [of bk "parent b"] branch_save_counts [of bk b]
    by (simp add: root_parent)
qed

lemma rename_counts:
  assumes "MemoryBranch_rename bk b name w = (Inr u, w')" and "\<not> private_name name"
  shows "count_saves (root b) w' = count_saves (root b) w + 3"
proof -
  from assms obtain x w1 w2 where
    "MemoryBranch_pop bk (parent b) (branch_name b) w = (Inr x, w1)"
    "MemoryBranch_setitem bk (parent b) name x w1 = (Inr (), w2)"
    "MemoryBranch_save bk b w2 = (Inr u, w')"
    by (auto simp: MemoryBranch_rename_def thenE_Inr)
  then show ?thesis
    using pop_counts [of bk "parent b"] setitem_counts [of bk "parent b"]
      branch_save_counts [of bk b] assms(2)
    by (simp add: root_parent)
qed

text \<open>
  C5, as the code has it. Counting the calls of the tree's \<^verbatim>\<open>_save\<close> by its
  \<^verbatim>\<open>_save_counter\<close>: whenever they return, \<^verbatim>\<open>__setattr__\<close> (write), \<^verbatim>\<open>__setitem__\<close>
  (create or overwrite), \<^verbatim>\<open>_update\<close>, \<^verbatim>\<open>_pop\<close> and \<^verbatim>\<open>_set_yml\<close> have saved once,
  \<^verbatim>\<open>_erase\<close> twice (the parent's \<^verbatim>\<open>_pop\<close> saves, then \<^verbatim>\<open>_erase\<close> itself) and
  \<^verbatim>\<open>_rename\<close> three times (the parent's \<^verbatim>\<open>_pop\<close>, the parent's \<^verbatim>\<open>__setitem__\<close>, then
  \<^verbatim>\<open>_rename\<close> itself). For the three operations that go through \<^verbatim>\<open>__setattr__\<close> the
  key, or the new name, has no leading underscore.
\<close>

theorem saves_per_operation:
  "(\<not> private_name k \<longrightarrow> MemoryBranch_setattr bk b k v w = (Inr u, w')
      \<longrightarrow> count_saves (root b) w' = count_saves (root b) w + 1)
 \<and> (\<not> private_name k \<longrightarrow> MemoryBranch_setitem bk b k v w = (Inr u, w')
      \<longrightarrow> count_saves (root b) w' = count_saves (root b) w + 1)
 \<and> (MemoryBranch_update bk b new w = (Inr u, w') \<longrightarrow> count_saves (root b) w' = count_saves (root b) w + 1)
 \<and> (MemoryBranch_pop bk b k w = (Inr x, w') \<longrightarrow> count_saves (root b) w' = count_saves (root b) w + 1)
 \<and> (MemoryBranch_set_yml bk b s w = (Inr u, w') \<longrightarrow> count_saves (root b) w' = count_saves (root b) w + 1)
 \<and> (MemoryBranch_erase bk b w = (Inr u, w') \<longrightarrow> count_saves (root b) w' = count_saves (root b) w + 2)
 \<and> (\<not> private_name name \<longrightarrow> MemoryBranch_rename bk b name w = (Inr u, w')
      \<longrightarrow> count_saves (root b) w' = count_saves (root b) w + 3)"
  by (intro conjI impI)
     (erule setattr_counts setitem_counts update_counts pop_counts set_yml_counts erase_counts
        rename_counts, (assumption)?)+

lemma started_ax:
  "started ''a: {x: 1}'' =
     \<lparr>heap = [[], [(''a'', Ref 2)], [(''x'', Leaf (SInt 1))]], class_data = 0,
      trees = [\<lparr>filename = Some (Some ''cfg.yml''), data = Some (Ref 1), mtime = Some 0,
                lastreload = Some 0, lastsave = Some 0, buffer_filename = Some ''cfg.yml.tmp'',
                savetimer = Some \<lparr>interval = 3000, single_shot = True, active = False, deadline = 0\<rparr>,
                save_counter = Some 0\<rparr>],
      fs = (\<lambda>p. if p = ''cfg.yml'' then Some \<lparr>bytes = ''a: {x: 1}'', modified = 0\<rparr> else None),
      now = 0, faulty = {}, partial = 0, logged = [], disk_writes = []\<rparr>"
  by (simp add: started_def MemoryTree_init_def MemoryTree_load_def monad_defs read_file_def
        materialize_def os_path_getmtime_def new_dict_def world0_def demo_def demo_load_def
        empty_tree_def relocate_def Let_def loadsavedeadtime_def)

lemmas branch_op_defs = private_name_def MemoryBranch_rename_def MemoryBranch_erase_def MemoryBranch_pop_def
  MemoryBranch_setitem_def MemoryBranch_setattr_def MemoryBranch_update_def
  MemoryBranch_set_yml_def pop_item_def update_items_def materialize_def relocate_def
  contains_def copy_dict_def new_dict_def store_item_def MemoryTree_save_def start_savetimer_def
  own_item_def tree_data_def subscript_def deref_def loadsavedeadtime_def Let_def

text \<open>C5 as stated fails: renaming the branch \<^verbatim>\<open>a\<close> of a tree loaded from
  \<^verbatim>\<open>a: {x: 1}\<close> moves the data to the new name and raises the save counter from 0 to 3.\<close>

theorem rename_saves_three_times:
  "(let b = Sub (Tree 0 []) ''a'' [];
        w = started ''a: {x: 1}'';
        w' = snd (MemoryBranch_rename demo b ''new'' w)
    in fst (MemoryBranch_rename demo b ''new'' w) = Inr ()
     \<and> count_saves 0 w = 0 \<and> count_saves 0 w' = 3
     \<and> fst (own_item (Tree 0 []) ''a'' w') = Inl KeyError
     \<and> fst (own_item (Sub (Tree 0 []) ''new'' []) ''x'' w') = Inr (Leaf (SInt 1)))"
  by (simp add: started_ax branch_op_defs count_saves_def monad_defs)

theorem saves_per_operation_witness:
  "(let b = Sub (Tree 0 []) ''a'' []; w = started ''a: {x: 1}''
    in count_saves 0 w = 0
     \<and> count_saves 0 (snd (MemoryBranch_setattr demo b ''x'' (Leaf (SInt 2)) w)) = 1
     \<and> count_saves 0 (snd (MemoryBranch_setitem demo b ''y'' (Leaf (SInt 2)) w)) = 1
     \<and> count_saves 0 (snd (MemoryBranch_update demo b [(''y'', Leaf (SInt 2))] w)) = 1
     \<and> count_saves 0 (snd (MemoryBranch_pop demo b ''x'' w)) = 1
     \<and> count_saves 0 (snd (MemoryBranch_set_yml demo b ''a: 1'' w)) = 1
     \<and> count_saves 0 (snd (MemoryBranch_erase demo b w)) = 2
     \<and> count_saves 0 (snd (MemoryBranch_rename demo b ''new'' w)) = 3)"
proof -
  define b where "b = Sub (Tree 0 []) ''a'' []"
  define w where "w = started ''a: {x: 1}''"
  have c0: "count_saves 0 w = 0"
    by (simp add: w_def started_ax count_saves_def)
  have r: "fst (MemoryBranch_setattr demo b ''x'' (Leaf (SInt 2)) w) = Inr ()"
    "fst (MemoryBranch_setitem demo b ''y'' (Leaf (SInt 2)) w) = Inr ()"
    "fst (MemoryBranch_update demo b [(''y'', Leaf (SInt 2))] w) = Inr ()"
    "fst (MemoryBranch_pop demo b ''x'' w) = Inr (Leaf (SInt 1))"
    "fst (MemoryBranch_set_yml demo b ''a: 1'' w) = Inr ()"
    "fst (MemoryBranch_erase demo b w) = Inr ()"
    "fst (MemoryBranch_rename demo b ''new'' w) = Inr ()"
    by (simp_all add: b_def w_def started_ax branch_op_defs monad_defs demo_def demo_load_def)
  have root: "root b = 0" by (simp add: b_def)
  note S = saves_per_operation [where bk = demo and b = b and w = w, unfolded root]
  have "count_saves 0 (snd (MemoryBranch_setattr demo b ''x'' (Leaf (SInt 2)) w)) = 1"
    using S [THEN conjunct1, rule_format, of "''x''" "Leaf (SInt 2)" "()"] r(1) c0
    by (simp add: prod_eq_iff private_name_def)
  moreover have "count_saves 0 (snd (MemoryBranch_setitem demo b ''y'' (Leaf (SInt 2)) w)) = 1"
    using S [THEN conjunct2, THEN conjunct1, rule_format, of "''y''" "Leaf (SInt 2)" "()"] r(2) c0
    by (simp add: prod_eq_iff private_name_def)
  moreover have "count_saves 0 (snd (MemoryBranch_update demo b [(''y'', Leaf (SInt 2))] w)) = 1"
    using S [THEN conjunct2, THEN conjunct2, THEN conjunct1, rule_format,
        of "[(''y'', Leaf (SInt 2))]" "()"] r(3) c0
    by (simp add: prod_eq_iff)
  moreover have "count_saves 0 (snd (MemoryBranch_pop demo b ''x'' w)) = 1"
    using S [THEN conjunct2, THEN conjunct2, THEN conjunct2, THEN conjunct1, rule_format,
        of "''x''" "Leaf (SInt 1)"] r(4) c0
    by (simp add: prod_eq_iff)
  moreover have "count_saves 0 (snd (MemoryBranch_set_yml demo b ''a: 1'' w)) = 1"
    using S [THEN conjunct2, THEN conjunct2, THEN conjunct2, THEN conjunct2, THEN conjunct1,
        rule_format, of "''a: 1''" "()"] r(5) c0
    by (simp add: prod_eq_iff)
  moreover have "count_saves 0 (snd (MemoryBranch_erase demo b w)) = 2"
    using S [THEN conjunct2, THEN conjunct2, THEN conjunct2, THEN conjunct2, THEN conjunct2,
        THEN conjunct1, rule_format, of "()"] r(6) c0
    by (simp add: prod_eq_iff)
  moreover have "count_saves 0 (snd (MemoryBranch_rename demo b ''new'' w)) = 3"
    using S [THEN conjunct2, THEN conjunct2, THEN conjunct2, THEN conjunct2, THEN conjunct2,
        THEN conjunct2, rule_format, of "''new''" "()"] r(7) c0
    by (simp add: prod_eq_iff private_name_def)
  ultimately show ?thesis
    unfolding Let_def b_def [symmetric] w_def [symmetric] using c0 by simp
qed

subsection \<open>Sharing\<close>

text \<open>
  C8, at an input where the code departs from it. On the tree loaded from \<^verbatim>\<open>a: 1\<close> the
  caller makes a dictionary \<open>v = {x: 1}\<close> and writes it with \<^verbatim>\<open>__setitem__\<close> under the
  existing key \<^verbatim>\<open>a\<close> and under the new key \<^verbatim>\<open>n\<close>. Under \<^verbatim>\<open>n\<close> a copy is stored
  (\<^verbatim>\<open>dict(value)\<close>); under \<^verbatim>\<open>a\<close> the write goes through \<^verbatim>\<open>__setattr__\<close>, which stores
  \<open>v\<close> itself. When the caller then sets \<^verbatim>\<open>v['x'] = 2\<close>, the tree's \<^verbatim>\<open>a.x\<close> reads 2 and
  its \<^verbatim>\<open>n.x\<close> still reads 1.
\<close>

theorem overwrite_stores_shared_reference:
  "fst (thenE (new_dict [(''x'', Leaf (SInt 1))]) (\<lambda>v.
        thenE (MemoryBranch_setitem demo (Tree 0 []) ''a'' v) (\<lambda>_.
        thenE (MemoryBranch_setitem demo (Tree 0 []) ''n'' v) (\<lambda>_.
        thenE (MemoryBranch_getitem demo (Tree 0 []) ''a'') (\<lambda>stored_a.
        thenE (MemoryBranch_getitem demo (Tree 0 []) ''n'') (\<lambda>stored_n.
        thenE (store_item v ''x'' (Leaf (SInt 2))) (\<lambda>_.
        thenE (MemoryBranch_getitem demo (Sub (Tree 0 []) ''a'' []) ''x'') (\<lambda>xa.
        thenE (MemoryBranch_getitem demo (Sub (Tree 0 []) ''n'' []) ''x'') (\<lambda>xn.
        return (v, stored_a, stored_n, xa, xn)))))))))
        (started ''a: 1''))
     = Inr (Ref 2, Ref 2, Ref 3, Leaf (SInt 2), Leaf (SInt 1))"
  by (simp add: started_a1 branch_op_defs MemoryBranch_getitem_def MemoryTree_reload_def monad_defs)

text \<open>
  C9, at an input where the code departs from it. Two trees are made with no file name.
  \<^verbatim>\<open>_load\<close> returns at once, so neither gets a \<^verbatim>\<open>_data\<close> attribute of its own and both
  resolve \<^verbatim>\<open>_data\<close> to the one dictionary made in the class body. A key written through
  the first tree, absent from the second before, is read through the second afterwards.
\<close>

theorem in_memory_trees_share_root:
  "(let w = snd (thenE (MemoryTree_init demo None) (\<lambda>_. MemoryTree_init demo None) (world0 []));
        w' = snd (MemoryBranch_setitem demo (Tree 0 []) ''k'' (Leaf (SInt 1)) w)
    in length (trees w) = 2
     \<and> fst (MemoryBranch_data (Tree 0 []) w) = Inr (Ref (class_data w))
     \<and> fst (MemoryBranch_data (Tree 1 []) w) = Inr (Ref (class_data w))
     \<and> fst (MemoryBranch_getitem demo (Tree 1 []) ''k'' w) = Inl KeyError
     \<and> fst (MemoryBranch_setitem demo (Tree 0 []) ''k'' (Leaf (SInt 1)) w) = Inr ()
     \<and> fst (MemoryBranch_getitem demo (Tree 1 []) ''k'' w') = Inr (Leaf (SInt 1)))"
  by (simp add: init_in_memory world0_def empty_tree_def branch_op_defs MemoryBranch_getitem_def
        MemoryTree_reload_def monad_defs nth_append)

subsection \<open>Bursts of writes\<close>

lemma save_deferred:
  assumes "tid < length (trees w)"
    and "filename (trees w ! tid) = Some (Some p)"
    and "save_counter (trees w ! tid) = Some c"
    and "lastsave (trees w ! tid) = Some ls"
    and "savetimer (trees w ! tid) = Some tm"
    and "\<not> ls + loadsavedeadtime * 1000 < now w"
  shows "MemoryTree_save bk tid None w =
           (Inr (), w\<lparr>trees := (trees w)[tid := (trees w ! tid)\<lparr>save_counter := Some (c + 1),
                        savetimer := Some (if active tm then tm
                                           else tm\<lparr>active := True, deadline := now w + interval tm\<rparr>)\<rparr>]\<rparr>)"
proof (cases "active tm")
  case True
  have eq: "(trees w ! tid)\<lparr>save_counter := Some (Suc c), savetimer := Some tm\<rparr>
          = (trees w ! tid)\<lparr>save_counter := Some (Suc c)\<rparr>"
    using assms(5) by (cases "trees w ! tid") simp
  from True assms show ?thesis
    by (simp add: MemoryTree_save_def start_savetimer_def monad_defs Let_def) (simp only: eq)
next
  case False
  with assms show ?thesis
    by (simp add: MemoryTree_save_def start_savetimer_def monad_defs Let_def)
qed

lemma but_heap: "w1\<lparr>heap := []\<rparr> = w\<lparr>heap := []\<rparr> \<Longrightarrow> w1 = w\<lparr>heap := heap w1\<rparr>"
  by (cases w, cases w1) simp

lemma heap_only:
  "keeps (\<lambda>w. w\<lparr>heap := []\<rparr>) (MemoryBranch_data b)"
  "keeps (\<lambda>w. w\<lparr>heap := []\<rparr>) (contains d k)"
  "keeps (\<lambda>w. w\<lparr>heap := []\<rparr>) (store_item d k v)"
  "keeps (\<lambda>w. w\<lparr>heap := []\<rparr>) (copy_dict v)"
  "keeps (\<lambda>w. w\<lparr>heap := []\<rparr>) (return x)"
  by (intro keeps_intros; simp)+

lemma setitem_is_save:
  assumes "MemoryBranch_setitem bk b k v w = (Inr u, w')" and "\<not> private_name k"
  shows "\<exists>h. MemoryTree_save bk (root b) None (w\<lparr>heap := h\<rparr>) = (Inr u, w')"
proof -
  let ?O = "\<lambda>w::world. w\<lparr>heap := []\<rparr>"
  from assms obtain d w1 present w2 where
    d: "MemoryBranch_data b w = (Inr d, w1)" and c: "contains d k w1 = (Inr present, w2)"
    and rest: "(if present then MemoryBranch_setattr bk b k v
       else
         thenE (if isbranch v then copy_dict v else return v) (\<lambda>x.
         thenE (MemoryBranch_data b) (\<lambda>d'.
         thenE (store_item d' k x) (\<lambda>_.
         MemoryBranch_save bk b)))) w2 = (Inr u, w')"
    by (auto simp: MemoryBranch_setitem_def thenE_Inr)
  have pre: "?O w2 = ?O w"
    using keepsD [OF heap_only(1) d] keepsD [OF heap_only(2) c] by simp
  have "\<exists>w5. ?O w5 = ?O w \<and> MemoryTree_save bk (root b) None w5 = (Inr u, w')"
  proof (cases present)
    case True
    with rest assms(2) obtain d' w3 w4 where
      "MemoryBranch_data b w2 = (Inr d', w3)" "store_item d' k v w3 = (Inr (), w4)"
      "MemoryBranch_save bk b w4 = (Inr u, w')"
      by (auto simp: MemoryBranch_setattr_def thenE_Inr)
    then show ?thesis
      using pre by (metis keepsD heap_only(1,3) MemoryBranch_save_root)
  next
    case False
    with rest obtain x w3 d' w4 w5 where
      "(if isbranch v then copy_dict v else return v) w2 = (Inr x, w3)"
      "MemoryBranch_data b w3 = (Inr d', w4)" "store_item d' k x w4 = (Inr (), w5)"
      "MemoryBranch_save bk b w5 = (Inr u, w')"
      by (auto simp: thenE_Inr)
    moreover have "keeps ?O (if isbranch v then copy_dict v else return v)"
      by (simp add: heap_only)
    ultimately show ?thesis
      using pre by (metis keepsD heap_only(1,3) MemoryBranch_save_root)
  qed
  then obtain w5 where "?O w5 = ?O w" "MemoryTree_save bk (root b) None w5 = (Inr u, w')"
    by blast
  then show ?thesis
    using but_heap [of w5 w] by metis
qed


lemma burst_defers:
  assumes "burst bk rs w = (Inr (), w')"
    and "\<forall>r\<in>set rs. root (fst (snd r)) = tid \<and> \<not> private_name (fst (snd (snd r)))"
    and "tid < length (trees w)"
    and "filename (trees w ! tid) = Some (Some p)"
    and "save_counter (trees w ! tid) = Some c"
    and "lastsave (trees w ! tid) = Some ls"
    and "savetimer (trees w ! tid) = Some tm"
    and "now w + int (sum_list (map fst rs)) \<le> ls + loadsavedeadtime * 1000"
  shows "w' = w\<lparr>heap := heap w', now := now w + int (sum_list (map fst rs)),
               trees := (trees w)[tid := (trees w ! tid)\<lparr>save_counter := Some (c + length rs),
                   savetimer := Some (if active tm \<or> rs = [] then tm
                      else tm\<lparr>active := True, deadline := now w + int (fst (hd rs)) + interval tm\<rparr>)\<rparr>]\<rparr>"
  using assms
proof (induction rs arbitrary: w c tm)
  case Nil
  then have ww: "w' = w" by (simp add: return_def)
  have eq: "(trees w ! tid)\<lparr>save_counter := Some c, savetimer := Some tm\<rparr> = trees w ! tid"
    using Nil by (cases "trees w ! tid") simp
  show ?case unfolding ww by (simp add: eq)
next
  case (Cons r rs)
  obtain dt b k v where r: "r = (dt, b, k, v)" by (cases r) auto
  define w1 where "w1 = w\<lparr>now := now w + int dt\<rparr>"
  from Cons.prems(1) obtain w2 where
    set: "MemoryBranch_setitem bk b k v w1 = (Inr (), w2)" and rest: "burst bk rs w2 = (Inr (), w')"
    by (auto simp: r thenE_Inr elapse_def w1_def)
  have b: "root b = tid" using Cons.prems(2) by (simp add: r)
  have k: "\<not> private_name k" using Cons.prems(2) by (simp add: r)
  from setitem_is_save [OF set k] obtain h where
    save: "MemoryTree_save bk tid None (w1\<lparr>heap := h\<rparr>) = (Inr (), w2)"
    by (auto simp: b)
  define tm' where "tm' = (if active tm then tm else tm\<lparr>active := True, deadline := now w + int dt + interval tm\<rparr>)"
  have w2: "w2 = w\<lparr>heap := h, now := now w + int dt,
                    trees := (trees w)[tid := (trees w ! tid)\<lparr>save_counter := Some (c + 1), savetimer := Some tm'\<rparr>]\<rparr>"
    using save_deferred [of tid "w1\<lparr>heap := h\<rparr>" p c ls tm bk] save Cons.prems
    by (simp add: w1_def r tm'_def)
  have act: "active tm'" by (simp add: tm'_def)
  have "w' = w2\<lparr>heap := heap w', now := now w2 + int (sum_list (map fst rs)),
               trees := (trees w2)[tid := (trees w2 ! tid)\<lparr>save_counter := Some (c + 1 + length rs),
                   savetimer := Some (if active tm' \<or> rs = [] then tm'
                      else tm'\<lparr>active := True, deadline := now w2 + int (fst (hd rs)) + interval tm'\<rparr>)\<rparr>]\<rparr>"
    using Cons.prems
    by (intro Cons.IH [OF rest]) (simp_all add: w2 r)
  then have "w' = w2\<lparr>heap := heap w', now := now w2 + int (sum_list (map fst rs)),
               trees := (trees w2)[tid := (trees w2 ! tid)\<lparr>save_counter := Some (c + 1 + length rs),
                   savetimer := Some tm'\<rparr>]\<rparr>"
    using act by simp
  then have "w' = w\<lparr>heap := heap w', now := now w + int dt + int (sum_list (map fst rs)),
               trees := (trees w)[tid := (trees w ! tid)\<lparr>save_counter := Some (c + 1 + length rs),
                   savetimer := Some tm'\<rparr>]\<rparr>"
    using Cons.prems(3) by (simp add: w2)
  then show ?case
    by (cases "active tm") (simp_all add: r tm'_def add.assoc)
qed


lemma write_file_ok:
  assumes "tid < length (trees w)"
    and "mtime (trees w ! tid) = Some m"
    and "buffer_filename (trees w ! tid) = Some (p @ ''.tmp'')"
    and "data (trees w ! tid) = Some rootv"
    and "fs w p = Some f" and "faulty w = {}"
  shows "\<exists>w'. write_file bk tid p w = (Inr (), w')
           \<and> disk_writes w' = disk_writes w @ [(p, yaml_save bk (heap w) rootv)]
           \<and> map_option bytes (fs w' p) = Some (yaml_save bk (heap w) rootv)
           \<and> heap w' = heap w \<and> now w' = now w
           \<and> trees w' = (trees w)[tid := (trees w ! tid)\<lparr>lastsave := Some (now w), mtime := Some (now w)\<rparr>]"
  using assms
  by (simp add: write_file_def write_and_replace_def try_except_reraise_def monad_defs
        os_path_getmtime_def copyfile_def open_w_def tree_data_def write_stream_def
        flush_fsync_close_def os_unlink_def os_rename_def)

lemma run_timer_idle:
  assumes "tid < length (trees w)" and "savetimer (trees w ! tid) = Some tm" and "\<not> active tm"
  shows "run_timer bk tid n w = (Inr (), w)"
  using assms by (cases n) (simp_all add: monad_defs)


lemma fire_writes:
  assumes "tid < length (trees w)" and "trees w ! tid = t"
    and "filename t = Some (Some p)" and "save_counter t = Some c" and "lastsave t = Some ls"
    and "mtime t = Some m" and "buffer_filename t = Some (p @ ''.tmp'')" and "data t = Some rootv"
    and "savetimer t = Some tm" and "active tm" and "single_shot tm"
    and "fs w p = Some f" and "faulty w = {}"
    and "ls + loadsavedeadtime * 1000 < max (now w) (deadline tm)"
  shows "\<exists>w'. run_timer bk tid (Suc n) w = (Inr (), w')
           \<and> disk_writes w' = disk_writes w @ [(p, yaml_save bk (heap w) rootv)]
           \<and> map_option bytes (fs w' p) = Some (yaml_save bk (heap w) rootv)
           \<and> heap w' = heap w
           \<and> map_option active (savetimer (trees w' ! tid)) = Some False"
proof -
  define wf where "wf = w\<lparr>now := max (now w) (deadline tm),
      trees := (trees w)[tid := t\<lparr>savetimer := Some (tm\<lparr>active := False\<rparr>), save_counter := Some (c + 1)\<rparr>]\<rparr>"
  have 1: "run_timer bk tid (Suc n) w = thenE (write_file bk tid p) (\<lambda>_. run_timer bk tid n) wf"
    using assms
    by (simp add: timer_fires_def MemoryTree_save_def monad_defs Let_def wf_def)
  have "\<exists>w'. write_file bk tid p wf = (Inr (), w')
           \<and> disk_writes w' = disk_writes wf @ [(p, yaml_save bk (heap wf) rootv)]
           \<and> map_option bytes (fs w' p) = Some (yaml_save bk (heap wf) rootv)
           \<and> heap w' = heap wf \<and> now w' = now wf
           \<and> trees w' = (trees wf)[tid := (trees wf ! tid)\<lparr>lastsave := Some (now wf), mtime := Some (now wf)\<rparr>]"
    using assms by (intro write_file_ok [where m = m and f = f]) (simp_all add: wf_def)
  then obtain w' where w': "write_file bk tid p wf = (Inr (), w')"
      "disk_writes w' = disk_writes w @ [(p, yaml_save bk (heap w) rootv)]"
      "map_option bytes (fs w' p) = Some (yaml_save bk (heap w) rootv)"
      "heap w' = heap w"
      "trees w' = (trees wf)[tid := (trees wf ! tid)\<lparr>lastsave := Some (now wf), mtime := Some (now wf)\<rparr>]"
    by (auto simp: wf_def)
  have idle: "tid < length (trees w')" "savetimer (trees w' ! tid) = Some (tm\<lparr>active := False\<rparr>)"
    using assms(1) by (simp_all add: w'(5) wf_def)
  have "run_timer bk tid n w' = (Inr (), w')"
    by (rule run_timer_idle [OF idle]) simp
  with 1 w' idle show ?thesis
    by (simp add: thenE_def)
qed

lemma fire_rearms:
  assumes "tid < length (trees w)" and "trees w ! tid = t"
    and "filename t = Some (Some p)" and "save_counter t = Some c" and "lastsave t = Some ls"
    and "savetimer t = Some tm" and "active tm" and "single_shot tm"
    and "\<not> ls + loadsavedeadtime * 1000 < max (now w) (deadline tm)"
  shows "run_timer bk tid (Suc n) w =
           run_timer bk tid n
             (w\<lparr>now := max (now w) (deadline tm),
                trees := (trees w)[tid := t\<lparr>save_counter := Some (c + 1),
                          savetimer := Some (tm\<lparr>active := True,
                            deadline := max (now w) (deadline tm) + interval tm\<rparr>)\<rparr>]\<rparr>)"
  using assms
  by (simp add: timer_fires_def MemoryTree_save_def start_savetimer_def monad_defs Let_def)


text \<open>
  C6, as the code has it. A tree with a backing file and an idle timer, last saved at
  \<open>ls\<close>, receives a burst of writes \<^verbatim>\<open>b[k] = v\<close> (no \<open>k\<close> with a leading underscore),
  each after a pause, all of them returning and the last of them no later than
  \<open>ls + 3000\<close>, that is, before the deadtime has passed. The burst writes nothing to disk. Left to the event loop, the
  timer started by the first write then leads to exactly one replacement of the file,
  whose bytes render the heap as the last write left it; the timer ends idle. Two rounds
  of the event loop at most are needed: when the first write came at the very instant of
  the last save, the timer's first shot still falls inside the window and only starts
  the timer again.
\<close>

theorem burst_written_once:
  assumes tree: "tid < length (trees w)" "filename (trees w ! tid) = Some (Some p)"
      "save_counter (trees w ! tid) = Some c" "lastsave (trees w ! tid) = Some ls"
      "mtime (trees w ! tid) = Some m" "buffer_filename (trees w ! tid) = Some (p @ ''.tmp'')"
      "data (trees w ! tid) = Some rootv" "savetimer (trees w ! tid) = Some tm"
    and timer: "\<not> active tm" "single_shot tm" "interval tm = loadsavedeadtime * 1000"
    and env: "faulty w = {}" "fs w p = Some f"
    and time: "ls \<le> now w" "now w + int (sum_list (map fst rs)) \<le> ls + loadsavedeadtime * 1000"
    and writes: "rs \<noteq> []"
      "\<forall>r\<in>set rs. root (fst (snd r)) = tid \<and> \<not> private_name (fst (snd (snd r)))"
      "burst bk rs w = (Inr (), w1)"
  shows "disk_writes w1 = disk_writes w \<and> fs w1 = fs w
       \<and> (\<exists>w2. run_timer bk tid (Suc (Suc n)) w1 = (Inr (), w2)
            \<and> disk_writes w2 = disk_writes w @ [(p, yaml_save bk (heap w1) rootv)]
            \<and> map_option bytes (fs w2 p) = Some (yaml_save bk (heap w1) rootv)
            \<and> heap w2 = heap w1
            \<and> map_option active (savetimer (trees w2 ! tid)) = Some False)"
proof -
  define dl where "dl = now w + int (fst (hd rs)) + interval tm"
  define N where "N = now w + int (sum_list (map fst rs))"
  define t1 where "t1 = (trees w ! tid)\<lparr>save_counter := Some (c + length rs),
                   savetimer := Some (tm\<lparr>active := True, deadline := dl\<rparr>)\<rparr>"
  have w1: "w1 = w\<lparr>heap := heap w1, now := N, trees := (trees w)[tid := t1]\<rparr>"
    using burst_defers [OF writes(3,2) tree(1,2,3,4,8) time(2)] timer(1) writes(1)
    by (simp add: dl_def N_def t1_def)
  have first: "fst (hd rs) \<le> sum_list (map fst rs)"
    using writes(1) by (cases rs) simp_all
  have dl: "ls + loadsavedeadtime * 1000 \<le> dl" "N \<le> dl"
    using time first timer(3) by (simp_all add: dl_def N_def)
  have T: "max (now w1) dl = dl"
    using dl by (subst w1) simp
  have t1: "tid < length (trees w1)" "trees w1 ! tid = t1"
    using tree(1) by (subst w1, simp)+
  have t1_fields: "filename t1 = Some (Some p)" "save_counter t1 = Some (c + length rs)"
    "lastsave t1 = Some ls" "mtime t1 = Some m" "buffer_filename t1 = Some (p @ ''.tmp'')"
    "data t1 = Some rootv" "savetimer t1 = Some (tm\<lparr>active := True, deadline := dl\<rparr>)"
    using tree by (simp_all add: t1_def)
  have env1: "fs w1 p = Some f" "faulty w1 = {}" "fs w1 = fs w" "disk_writes w1 = disk_writes w"
    using env by (subst w1, simp)+
  have "\<exists>w2. run_timer bk tid (Suc (Suc n)) w1 = (Inr (), w2)
            \<and> disk_writes w2 = disk_writes w1 @ [(p, yaml_save bk (heap w1) rootv)]
            \<and> map_option bytes (fs w2 p) = Some (yaml_save bk (heap w1) rootv)
            \<and> heap w2 = heap w1
            \<and> map_option active (savetimer (trees w2 ! tid)) = Some False"
  proof (cases "ls + loadsavedeadtime * 1000 < dl")
    case True
    show ?thesis
      using t1 t1_fields env1 timer True T
      by (intro fire_writes [where t = t1 and ls = ls and m = m and f = f and c = "c + length rs"
            and tm = "tm\<lparr>active := True, deadline := dl\<rparr>"]) simp_all
  next
    case False
    with dl have eq: "dl = ls + loadsavedeadtime * 1000" by simp
    define w1' where "w1' = w1\<lparr>now := dl,
                trees := (trees w1)[tid := t1\<lparr>save_counter := Some (c + length rs + 1),
                          savetimer := Some (tm\<lparr>active := True, deadline := dl + interval tm\<rparr>)\<rparr>]\<rparr>"
    have "run_timer bk tid (Suc (Suc n)) w1 = run_timer bk tid (Suc n) w1'"
      using fire_rearms [OF t1 t1_fields(1,2,3,7), of bk "Suc n"] timer False T
      by (simp add: w1'_def)
    moreover have "\<exists>w2. run_timer bk tid (Suc n) w1' = (Inr (), w2)
            \<and> disk_writes w2 = disk_writes w1' @ [(p, yaml_save bk (heap w1') rootv)]
            \<and> map_option bytes (fs w2 p) = Some (yaml_save bk (heap w1') rootv)
            \<and> heap w2 = heap w1'
            \<and> map_option active (savetimer (trees w2 ! tid)) = Some False"
      using t1 t1_fields env1 timer eq
      by (intro fire_writes [where ls = ls and m = m and f = f and c = "c + length rs + 1"
            and tm = "tm\<lparr>active := True, deadline := dl + interval tm\<rparr>"
            and t = "t1\<lparr>save_counter := Some (c + length rs + 1),
                          savetimer := Some (tm\<lparr>active := True, deadline := dl + interval tm\<rparr>)\<rparr>"])
         (simp_all add: w1'_def loadsavedeadtime_def)
    ultimately show ?thesis
      by (simp add: w1'_def)
  qed
  with env1 show ?thesis by simp
qed


lemmas fs_defs = write_file_def write_and_replace_def try_except_reraise_def
  os_path_getmtime_def copyfile_def open_w_def write_stream_def flush_fsync_close_def
  os_unlink_def os_rename_def timer_fires_def elapse_def demo_def demo_save_def

text \<open>C6 as stated fails: the tree was last saved at 0 and the deadtime is 3000 ms; two
  writes come at 2000 and 4000, within 2000 ms of each other. The first starts the timer,
  the second finds the deadtime passed and writes the file at once, and the timer, still
  armed, later leads to a second write of the same bytes.\<close>

theorem straddling_burst_written_twice:
  "(let w = started ''a: 1'';
        w1 = snd (burst demo [(2000, Tree 0 [], ''k'', Leaf (SInt 1)),
                              (2000, Tree 0 [], ''k'', Leaf (SInt 2))] w);
        w2 = snd (run_timer demo 0 (Suc (Suc (Suc 0))) w1)
    in lastsave (trees w ! 0) = Some 0 \<and> now w = 0 \<and> disk_writes w = []
     \<and> now w1 = 4000
     \<and> disk_writes w1 = [(''cfg.yml'', ''a: |; k: ||; '')]
     \<and> disk_writes w2 = [(''cfg.yml'', ''a: |; k: ||; ''), (''cfg.yml'', ''a: |; k: ||; '')]
     \<and> map_option active (savetimer (trees w2 ! 0)) = Some False)"
  by (simp add: started_a1 branch_op_defs fs_defs monad_defs eval_nat_numeral)

theorem burst_written_once_witness:
  "(let w = started ''a: 1'';
        w1 = snd (burst demo [(1000, Tree 0 [], ''k'', Leaf (SInt 1)),
                              (500, Tree 0 [], ''k'', Leaf (SInt 2))] w)
    in disk_writes w1 = [] \<and> fs w1 = fs w
     \<and> (\<exists>w2. run_timer demo 0 (Suc (Suc 0)) w1 = (Inr (), w2)
            \<and> disk_writes w2 = [(''cfg.yml'', ''a: |; k: ||; '')]
            \<and> map_option bytes (fs w2 ''cfg.yml'') = Some ''a: |; k: ||; ''
            \<and> heap w2 = heap w1
            \<and> map_option active (savetimer (trees w2 ! 0)) = Some False))"
proof -
  define rs where "rs = [(1000::nat, Tree 0 [], ''k'', Leaf (SInt 1)), (500, Tree 0 [], ''k'', Leaf (SInt 2))]"
  define w where "w = started ''a: 1''"
  define w1 where "w1 = snd (burst demo rs w)"
  have b: "burst demo rs w = (Inr (), w1)" and h: "heap w1 = [[], [(''a'', Leaf (SInt 1)), (''k'', Leaf (SInt 2))]]"
    by (simp_all add: w1_def rs_def w_def started_a1 branch_op_defs fs_defs monad_defs)
  have "disk_writes w1 = disk_writes w \<and> fs w1 = fs w
       \<and> (\<exists>w2. run_timer demo 0 (Suc (Suc 0)) w1 = (Inr (), w2)
            \<and> disk_writes w2 = disk_writes w @ [(''cfg.yml'', yaml_save demo (heap w1) (Ref 1))]
            \<and> map_option bytes (fs w2 ''cfg.yml'') = Some (yaml_save demo (heap w1) (Ref 1))
            \<and> heap w2 = heap w1
            \<and> map_option active (savetimer (trees w2 ! 0)) = Some False)"
    by (rule burst_written_once [where c = 0 and ls = 0 and m = 0
          and tm = "\<lparr>interval = 3000, single_shot = True, active = False, deadline = 0\<rparr>"
          and f = "\<lparr>bytes = ''a: 1'', modified = 0\<rparr>" and rs = rs, OF _ _ _ _ _ _ _ _ _ _ _ _ _ _ _ _ _ b])
       (simp_all add: w_def started_a1 loadsavedeadtime_def rs_def private_name_def)
  then show ?thesis
    unfolding Let_def rs_def [symmetric] w_def [symmetric] w1_def [symmetric]
    by (simp add: h demo_def demo_save_def w_def started_a1 eval_nat_numeral
          del: run_timer.simps)
qed

subsection \<open>Writing, then reading\<close>

lemma data_reads: "MemoryBranch_data b w = (fst (MemoryBranch_data b w), w)"
  using keeps_MemoryBranch_data [of "\<lambda>w. w" b] by (simp add: keeps_def prod_eq_iff)

lemma data_Sub:
  "fst (MemoryBranch_data (Sub p n ds) w) =
     (case fst (MemoryBranch_data p w) of
        Inl e \<Rightarrow> Inl e
      | Inr (Leaf s) \<Rightarrow> Inl TypeError
      | Inr (Ref a) \<Rightarrow>
          if a < length (heap w)
          then (case map_of (heap w ! a) n of None \<Rightarrow> Inl KeyError | Some x \<Rightarrow> Inr x)
          else Inl InvalidRef)"
  apply (simp add: thenE_def)
  apply (subst data_reads)
  apply (simp add: subscript_def deref_def monad_defs split: sum.split val.split option.split)
  done

lemma data_stable:
  assumes "fst (MemoryBranch_data b w) = Inr x"
    and "fst (tree_data (root b) w') = fst (tree_data (root b) w)"
    and "length (heap w) \<le> length (heap w')"
    and "\<forall>q\<in>set (proper_ancestors b). \<forall>aq<length (heap w).
           fst (MemoryBranch_data q w) = Inr (Ref aq) \<longrightarrow> heap w' ! aq = heap w ! aq"
  shows "fst (MemoryBranch_data b w') = Inr x"
  using assms
proof (induction b arbitrary: x)
  case (Tree tid ds)
  then show ?case by simp
next
  case (Sub p n ds)
  from Sub.prems(1) obtain a where
    p: "fst (MemoryBranch_data p w) = Inr (Ref a)" and a: "a < length (heap w)"
    and x: "map_of (heap w ! a) n = Some x"
    unfolding data_Sub by (auto split: sum.splits val.splits if_splits option.splits)
  have "fst (MemoryBranch_data p w') = Inr (Ref a)"
    using Sub.prems by (intro Sub.IH(1) [OF p]) simp_all
  moreover have "heap w' ! a = heap w ! a"
    using Sub.prems(4) p a by simp
  ultimately show ?case
    using a x Sub.prems(3) unfolding data_Sub by simp
qed


lemma tree_data_fst:
  "fst (tree_data tid w) =
     (if tid < length (trees w)
      then Inr (case data (trees w ! tid) of Some v \<Rightarrow> v | None \<Rightarrow> Ref (class_data w))
      else Inl InvalidRef)"
  by (simp add: tree_data_def monad_defs split: option.split)

lemma data_after_alloc:
  assumes "fst (MemoryBranch_data b w) = Inr x"
  shows "MemoryBranch_data b (w\<lparr>heap := heap w @ xs\<rparr>) = (Inr x, w\<lparr>heap := heap w @ xs\<rparr>)"
proof -
  have "fst (MemoryBranch_data b (w\<lparr>heap := heap w @ xs\<rparr>)) = Inr x"
    by (rule data_stable [OF assms]) (simp_all add: tree_data_fst nth_append split: option.split)
  then show ?thesis
    by (subst data_reads) simp
qed

lemma setitem_effect:
  assumes "MemoryBranch_setitem bk b k v w = (Inr (), w1)"
    and "fst (MemoryBranch_data b w) = Inr (Ref a)"
    and "\<not> private_name k"
  shows "\<exists>r h. a < length (heap w) \<and> length (heap w) \<le> length h
      \<and> (\<forall>a'<length (heap w). a' \<noteq> a \<longrightarrow> h ! a' = heap w ! a')
      \<and> map_of (h ! a) k = Some r
      \<and> (r = v \<or> (\<exists>av. v = Ref av \<and> r = Ref (length (heap w)) \<and> length (heap w) < length h
                       \<and> h ! length (heap w) = heap w ! av))
      \<and> MemoryTree_save bk (root b) None (w\<lparr>heap := h\<rparr>) = (Inr (), w1)"
proof -
  have D: "MemoryBranch_data b w = (Inr (Ref a), w)"
    using assms(2) by (subst data_reads) simp
  have D2: "MemoryBranch_data b (w\<lparr>heap := heap w @ xs\<rparr>) = (Inr (Ref a), w\<lparr>heap := heap w @ xs\<rparr>)" for xs
    by (rule data_after_alloc [OF assms(2)])
  from assms(1) D have a: "a < length (heap w)"
    by (auto simp: MemoryBranch_setitem_def thenE_def contains_def deref_def split: if_splits)
  show ?thesis
  proof (cases "k \<in> fst ` set (heap w ! a)")
    case True
    with assms(1,3) D a have "MemoryTree_save bk (root b) None
        (w\<lparr>heap := (heap w)[a := AList.update k v (heap w ! a)]\<rparr>) = (Inr (), w1)"
      by (simp add: MemoryBranch_setitem_def MemoryBranch_setattr_def thenE_def contains_def
            deref_def store_item_def return_def MemoryBranch_save_root)
    with a show ?thesis
      by (intro exI [of _ v] exI [of _ "(heap w)[a := AList.update k v (heap w ! a)]"])
         (simp add: update_conv')
  next
    case False
    show ?thesis
    proof (cases v)
      case (Leaf s)
      with False assms(1) D a have "MemoryTree_save bk (root b) None
          (w\<lparr>heap := (heap w)[a := AList.update k v (heap w ! a)]\<rparr>) = (Inr (), w1)"
        by (simp add: MemoryBranch_setitem_def thenE_def contains_def
              deref_def store_item_def return_def MemoryBranch_save_root)
      with a show ?thesis
        by (intro exI [of _ v] exI [of _ "(heap w)[a := AList.update k v (heap w ! a)]"])
           (simp add: update_conv')
    next
      case (Ref av)
      let ?n = "length (heap w)"
      let ?h = "(heap w @ [heap w ! av])[a := AList.update k (Ref ?n) (heap w ! a)]"
      from Ref False assms(1) D a have av: "av < length (heap w)"
        by (auto simp: MemoryBranch_setitem_def thenE_def contains_def copy_dict_def
              deref_def return_def split: if_splits)
      with Ref False assms(1) D a D2 [of "[heap w ! av]"] have
        "MemoryTree_save bk (root b) None (w\<lparr>heap := ?h\<rparr>) = (Inr (), w1)"
        by (simp add: MemoryBranch_setitem_def thenE_def contains_def copy_dict_def new_dict_def
              deref_def store_item_def return_def MemoryBranch_save_root nth_append)
      with a av Ref show ?thesis
        by (intro exI [of _ "Ref ?n"] exI [of _ ?h])
           (simp add: update_conv' nth_append nth_list_update)
    qed
  qed
qed


lemma save_keeps_root:
  "keeps (\<lambda>w. (length (trees w), data (trees w ! tid), class_data w)) (MemoryTree_save bk tid dt)"
  by (rule keeps_save_body) (simp_all add: nth_upd_field)

lemma save_keeps_sync_fields:
  "keeps (\<lambda>w. (length (trees w), filename (trees w ! tid), lastreload (trees w ! tid), faulty w))
     (MemoryTree_save bk tid dt)"
  by (rule keeps_save_body) (simp_all add: nth_upd_field)

lemma write_file_syncs:
  assumes "write_file bk tid p w = (Inr (), w')" and "tid < length (trees w)"
  shows "\<exists>f. fs w' p = Some f \<and> mtime (trees w' ! tid) = Some (modified f)"
proof -
  define pre where "pre = thenE (\<lambda>w. upd_tree tid (\<lambda>t. t\<lparr>lastsave := Some (now w)\<rparr>) w) (\<lambda>_.
     thenE (get_tree tid) (\<lambda>t.
     thenE (attr (mtime t)) (\<lambda>m.
     thenE (os_path_getmtime p) (\<lambda>fm.
     thenE (if m \<noteq> fm
            then log ''Config file has recently been changed on your harddisk. These changes might have been overwritten now.''
            else return ()) (\<lambda>_.
     thenE (copyfile Backup p (p @ ''.bak'')) (\<lambda>_.
     try_except_reraise (write_and_replace bk tid p)
              (thenE (copyfile Restore (p @ ''.bak'') p) (\<lambda>_.
               log ''Error writing to file. Backup version was restored.''))))))))"
  have split: "write_file bk tid p =
      thenE pre (\<lambda>_. thenE (os_path_getmtime p) (\<lambda>m'. upd_tree tid (\<lambda>t. t\<lparr>mtime := Some m'\<rparr>)))"
    by (rule ext) (simp add: write_file_def pre_def thenE_def split: prod.split sum.split)
  have len: "keeps (\<lambda>w. length (trees w)) pre"
    unfolding pre_def by (intro keeps_intros) simp_all
  from assms(1) obtain w5 m' where
    pre: "pre w = (Inr (), w5)" and m: "os_path_getmtime p w5 = (Inr m', w5)"
    and w': "w' = w5\<lparr>trees := (trees w5)[tid := (trees w5 ! tid)\<lparr>mtime := Some m'\<rparr>]\<rparr>"
    unfolding split
    by (auto simp: thenE_Inr upd_tree_def os_path_getmtime_def split: if_splits option.splits)
  from keepsD [OF len pre] assms(2) have "tid < length (trees w5)" by simp
  with m w' show ?thesis
    by (auto simp: os_path_getmtime_def split: if_splits option.splits)
qed

lemma save_in_sync:
  assumes "MemoryTree_save bk tid dt w = (Inr (), w')" and "in_sync tid w"
  shows "in_sync tid w'"
proof -
  have same: "length (trees w') = length (trees w)" "filename (trees w' ! tid) = filename (trees w ! tid)"
    "lastreload (trees w' ! tid) = lastreload (trees w ! tid)" "faulty w' = faulty w"
    using keepsD [OF save_keeps_sync_fields assms(1)] by simp_all
  show ?thesis
  proof (cases "filename (trees w ! tid)")
    case None
    with assms(2) show ?thesis by (simp add: in_sync_def)
  next
    case (Some fname)
    show ?thesis
    proof (cases fname)
      case None
      with Some assms(2) same show ?thesis by (simp add: in_sync_def)
    next
      case (Some p)
      from assms obtain c ls where c: "save_counter (trees w ! tid) = Some c"
        and ls: "lastsave (trees w ! tid) = Some ls" and len: "tid < length (trees w)"
        using \<open>filename (trees w ! tid) = Some fname\<close> Some
        by (auto simp: MemoryTree_save_def Let_def thenE_Inr get_tree_def attr_def return_def raise_def
              in_sync_def split: if_splits option.splits)
      define w0 where "w0 = w\<lparr>trees := (trees w)[tid := (trees w ! tid)\<lparr>save_counter := Some (c + 1)\<rparr>]\<rparr>"
      define d where "d = (case dt of None \<Rightarrow> loadsavedeadtime | Some d \<Rightarrow> d)"
      have body: "(if ls + d * 1000 < now w0 then write_file bk tid p w0 else start_savetimer tid w0) = (Inr (), w')"
        using assms(1) c ls len \<open>filename (trees w ! tid) = Some fname\<close> Some
        by (auto simp: MemoryTree_save_def Let_def monad_defs w0_def d_def split: if_splits)
      show ?thesis
      proof (cases "ls + d * 1000 < now w0")
        case True
        with body have "write_file bk tid p w0 = (Inr (), w')" by simp
        from write_file_syncs [OF this] len obtain f where
          "fs w' p = Some f" "mtime (trees w' ! tid) = Some (modified f)"
          by (auto simp: w0_def)
        with assms(2) same \<open>filename (trees w ! tid) = Some fname\<close> Some show ?thesis
          by (simp add: in_sync_def)
      next
        case False
        with body have st: "start_savetimer tid w0 = (Inr (), w')" by simp
        have "keeps (\<lambda>w. (fs w, mtime (trees w ! tid))) (start_savetimer tid)"
          by (rule keeps_start_savetimer) (simp add: nth_upd_field)
        from keepsD [OF this st] have "fs w' = fs w" "mtime (trees w' ! tid) = mtime (trees w ! tid)"
          using len by (simp_all add: w0_def)
        with assms(2) same \<open>filename (trees w ! tid) = Some fname\<close> Some show ?thesis
          by (simp add: in_sync_def split: option.splits)
      qed
    qed
  qed
qed

lemma reload_in_sync:
  assumes "in_sync tid w"
  shows "\<exists>w'. MemoryTree_reload bk tid w = (Inr (), w') \<and> heap w' = heap w
            \<and> fst (tree_data tid w') = fst (tree_data tid w)"
proof -
  from assms have len: "tid < length (trees w)" by (simp add: in_sync_def)
  from assms obtain fname where fname: "filename (trees w ! tid) = Some fname"
    by (cases "filename (trees w ! tid)") (simp_all add: in_sync_def)
  show ?thesis
  proof (cases fname)
    case None
    with len fname have "MemoryTree_reload bk tid w = (Inr (), w)"
      by (simp add: MemoryTree_reload_def monad_defs)
    then show ?thesis by simp
  next
    case (Some p)
    with assms fname obtain lr f where lr: "lastreload (trees w ! tid) = Some lr"
      and f: "fs w p = Some f" "mtime (trees w ! tid) = Some (modified f)" "Stat \<notin> faulty w"
      by (auto simp: in_sync_def split: option.splits)
    show ?thesis
    proof (cases "now w > lr + loadsavedeadtime * 1000")
      case True
      with len fname Some lr f have "MemoryTree_reload bk tid w =
          (Inr (), w\<lparr>trees := (trees w)[tid := (trees w ! tid)\<lparr>lastreload := Some (now w)\<rparr>]\<rparr>)"
        by (simp add: MemoryTree_reload_def monad_defs os_path_getmtime_def)
      with len show ?thesis by (simp add: tree_data_fst split: option.split)
    next
      case False
      with len fname Some lr have "MemoryTree_reload bk tid w = (Inr (), w)"
        by (simp add: MemoryTree_reload_def monad_defs)
      then show ?thesis by simp
    qed
  qed
qed


lemma MemoryBranch_reload_root: "MemoryBranch_reload bk b = MemoryTree_reload bk (root b)"
  by (induction b) simp_all

lemma own_item_fst:
  "fst (own_item b k w) =
     (case fst (MemoryBranch_data b w) of
        Inl e \<Rightarrow> Inl e
      | Inr (Leaf s) \<Rightarrow> Inl TypeError
      | Inr (Ref a) \<Rightarrow>
          if a < length (heap w)
          then (case map_of (heap w ! a) k of None \<Rightarrow> Inl KeyError | Some x \<Rightarrow> Inr x)
          else Inl InvalidRef)"
  using data_Sub [of b k "[]" w] by (simp add: own_item_def)

text \<open>
  C2, as the code has it. A write \<^verbatim>\<open>b[k] = v\<close> that returns, \<open>k\<close> having no leading
  underscore, on a tree that knows its file as it is (or has none), through a branch
  \<open>b\<close> whose own dictionary, the object at \<open>a\<close>, is not also the dictionary of one of the
  branches above \<open>b\<close>. Then a read
  \<^verbatim>\<open>b[k]\<close> right after it returns, does not change the heap, and yields \<open>v\<close>, or, when
  \<open>v\<close> is a dictionary written under a new key, the new dictionary that was stored,
  holding the items \<open>v\<close> had. The write leaves every dictionary that existed before
  and is not \<open>b\<close>'s own as it was; in particular the own dictionary of every default
  branch of \<open>b\<close> that is another object.
\<close>

theorem write_then_read:
  assumes "MemoryBranch_setitem bk b k v w = (Inr (), w1)"
    and "fst (MemoryBranch_data b w) = Inr (Ref a)"
    and "\<forall>q\<in>set (proper_ancestors b). fst (MemoryBranch_data q w) \<noteq> Inr (Ref a)"
    and "in_sync (root b) w"
    and "\<not> private_name k"
  shows "(\<exists>r w2. MemoryBranch_getitem bk b k w1 = (Inr r, w2) \<and> heap w2 = heap w1
            \<and> (r = v \<or> (\<exists>av. v = Ref av \<and> r = Ref (length (heap w))
                            \<and> heap w1 ! length (heap w) = heap w ! av)))
       \<and> (\<forall>a'<length (heap w). a' \<noteq> a \<longrightarrow> heap w1 ! a' = heap w ! a')
       \<and> (\<forall>d\<in>set (defaults b). \<forall>ad<length (heap w).
             fst (MemoryBranch_data d w) = Inr (Ref ad) \<longrightarrow> ad \<noteq> a \<longrightarrow> heap w1 ! ad = heap w ! ad)"
proof -
  from setitem_effect [OF assms(1,2,5)] obtain r h where
    a: "a < length (heap w)" and len: "length (heap w) \<le> length h"
    and frame: "\<forall>a'<length (heap w). a' \<noteq> a \<longrightarrow> h ! a' = heap w ! a'"
    and r: "map_of (h ! a) k = Some r"
    and rv: "r = v \<or> (\<exists>av. v = Ref av \<and> r = Ref (length (heap w)) \<and> length (heap w) < length h
                       \<and> h ! length (heap w) = heap w ! av)"
    and save: "MemoryTree_save bk (root b) None (w\<lparr>heap := h\<rparr>) = (Inr (), w1)"
    by blast
  have h1: "heap w1 = h"
    using keepsD [OF save_keeps_heap save] by simp
  have root1: "fst (tree_data (root b) w1) = fst (tree_data (root b) w)"
    using keepsD [OF save_keeps_root save] by (simp add: tree_data_fst split: option.split)
  have "in_sync (root b) (w\<lparr>heap := h\<rparr>)"
    using assms(4) by (simp add: in_sync_def cong: option.case_cong)
  from save_in_sync [OF save this] have "in_sync (root b) w1" .
  from reload_in_sync [OF this, of bk] obtain w2 where
    reload: "MemoryTree_reload bk (root b) w1 = (Inr (), w2)" and h2: "heap w2 = heap w1"
    and root2: "fst (tree_data (root b) w2) = fst (tree_data (root b) w1)"
    by blast
  have data2: "fst (MemoryBranch_data b w2) = Inr (Ref a)"
  proof (rule data_stable [OF assms(2)])
    show "fst (tree_data (root b) w2) = fst (tree_data (root b) w)"
      using root1 root2 by simp
    show "length (heap w) \<le> length (heap w2)"
      using len h1 h2 by simp
    show "\<forall>q\<in>set (proper_ancestors b). \<forall>aq<length (heap w).
           fst (MemoryBranch_data q w) = Inr (Ref aq) \<longrightarrow> heap w2 ! aq = heap w ! aq"
      using assms(3) frame h1 h2 by auto
  qed
  have "fst (own_item b k w2) = Inr r"
    using data2 a len r h1 h2 by (simp add: own_item_fst)
  then have "MemoryBranch_getitem bk b k w1 = (Inr r, w2)"
    using getitem_after_reload [of bk b w1 w2 k] reload
    by (simp add: MemoryBranch_reload_root)
  with h2 rv h1 frame show ?thesis
    by auto
qed


text \<open>C2 as stated fails: 3.5 s after start a first write is saved to the file; at 4 s
  another process rewrites the file; at 4.5 s \<^verbatim>\<open>tree['k'] = 5\<close> is stored in memory and
  its save deferred. The read \<^verbatim>\<open>tree['k']\<close> that follows finds the reload deadtime
  passed and the file changed, reloads the tree from the file, and raises \<^verbatim>\<open>KeyError\<close>.\<close>

theorem unsaved_write_lost_on_reload:
  "(let w = snd (thenE (elapse 3500) (\<lambda>_.
                 thenE (MemoryBranch_setitem demo (Tree 0 []) ''j'' (Leaf (SInt 1))) (\<lambda>_.
                 thenE (elapse 500) (\<lambda>_.
                 thenE (external_edit ''cfg.yml'' ''a: 1'') (\<lambda>_.
                 elapse 500)))) (started ''a: 1''));
        w1 = snd (MemoryBranch_setitem demo (Tree 0 []) ''k'' (Leaf (SInt 5)) w)
    in fst (MemoryBranch_setitem demo (Tree 0 []) ''k'' (Leaf (SInt 5)) w) = Inr ()
     \<and> fst (own_item (Tree 0 []) ''k'' w1) = Inr (Leaf (SInt 5))
     \<and> fst (MemoryBranch_getitem demo (Tree 0 []) ''k'' w1) = Inl KeyError)"
  by (simp add: started_a1 branch_op_defs fs_defs monad_defs external_edit_def
        MemoryBranch_getitem_def MemoryTree_reload_def MemoryTree_load_def demo_load_def
        read_file_def eval_nat_numeral)

theorem write_then_read_witness:
  "(let b = Sub (Tree 0 []) ''a'' [Tree 0 []];
        w = started ''a: {x: 1}'';
        w1 = snd (MemoryBranch_setitem demo b ''y'' (Leaf (SInt 2)) w)
    in fst (MemoryBranch_setitem demo b ''y'' (Leaf (SInt 2)) w) = Inr ()
     \<and> fst (MemoryBranch_data b w) = Inr (Ref 2)
     \<and> fst (MemoryBranch_data (Tree 0 []) w) = Inr (Ref 1)
     \<and> fst (MemoryBranch_getitem demo b ''y'' w1) = Inr (Leaf (SInt 2))
     \<and> heap w1 ! 1 = heap w ! 1)"
proof -
  define b where "b = Sub (Tree 0 []) ''a'' [Tree 0 []]"
  define w where "w = started ''a: {x: 1}''"
  define w1 where "w1 = snd (MemoryBranch_setitem demo b ''y'' (Leaf (SInt 2)) w)"
  have ev: "fst (MemoryBranch_setitem demo b ''y'' (Leaf (SInt 2)) w) = Inr ()"
    "fst (MemoryBranch_data b w) = Inr (Ref 2)"
    "fst (MemoryBranch_data (Tree 0 []) w) = Inr (Ref 1)"
    "in_sync (root b) w" "length (heap w) = 3"
    by (simp_all add: b_def w_def started_ax branch_op_defs monad_defs in_sync_def)
  have set: "MemoryBranch_setitem demo b ''y'' (Leaf (SInt 2)) w = (Inr (), w1)"
    using ev(1) by (simp add: w1_def prod_eq_iff)
  have anc: "\<forall>q\<in>set (proper_ancestors b). fst (MemoryBranch_data q w) \<noteq> Inr (Ref 2)"
    using ev(3) by (simp add: b_def)
  have name: "\<not> private_name ''y''" by (simp add: private_name_def)
  from write_then_read [OF set ev(2) anc ev(4) name] ev(5)
  have "fst (MemoryBranch_getitem demo b ''y'' w1) = Inr (Leaf (SInt 2))" "heap w1 ! 1 = heap w ! 1"
    by auto
  with ev show ?thesis
    unfolding Let_def b_def [symmetric] w_def [symmetric] w1_def [symmetric] by simp
qed

end
